theory Spec2Isabelle
  imports Complex_Main "HOL-Library.Multiset"
begin

section \<open>Dates and times of day\<close>

text \<open>
  The program computes with JavaScript \<^verbatim>\<open>Date\<close> objects read through their local-time
  accessors (\<^verbatim>\<open>getDay\<close>, \<^verbatim>\<open>setHours\<close>, date-fns \<^verbatim>\<open>format\<close>). A \<open>Date\<close> is
  modelled by its wall-clock reading in the user's time zone: the number of milliseconds
  from local midnight of 1970-01-01 (a Thursday) to the local date and time it shows.
  Where two \<^verbatim>\<open>getTime()\<close> values are compared or subtracted, the zone offset is taken to
  be the same at both instants, so that their difference is the difference of the readings.

  The time zone matters in one more way. Where the program asks for a local time
  (\<^verbatim>\<open>setHours\<close>, \<^verbatim>\<open>new Date\<close> of a text without zone, date-fns \<^verbatim>\<open>addDays\<close>), a
  wall-clock time that a daylight-saving transition skips does not exist, and the
  \<^verbatim>\<open>Date\<close> obtained shows a later time: 02:30 asked for on 2024-03-10 in
  America/New_York gives 03:30. A \<open>Zone\<close> is the function from the wall-clock time asked
  for to the reading of the \<^verbatim>\<open>Date\<close> obtained; it moves a skipped time forward within
  its calendar day and leaves every other time as it is.

  The columns \<^verbatim>\<open>dose_time\<close> and \<^verbatim>\<open>scheduled_time\<close> have SQL type \<^verbatim>\<open>time\<close>, and
  \<^verbatim>\<open>scheduled_date\<close> has type \<^verbatim>\<open>date\<close>; the client reads them as the canonical texts
  \<^verbatim>\<open>HH:mm:ss\<close> and \<^verbatim>\<open>yyyy-MM-dd\<close>, the same forms that \<^verbatim>\<open>format(d, 'HH:mm:ss')\<close>
  and \<^verbatim>\<open>format(d, 'yyyy-MM-dd')\<close> produce. Equality of two such texts is equality of
  the values they denote, and the model keeps the denoted values: a time of day is a
  record of hour, minute and second, a calendar date is a day number.
\<close>

type_synonym Date = int

type_synonym CalDate = int

record TimeOfDay =
  hh :: nat
  mm :: nat
  ss :: nat

typedef Zone = "{f :: int \<Rightarrow> int. \<forall>t. t \<le> f t \<and> f t div 86400000 = t div 86400000}"
  morphisms resolve mkZone
  by (rule exI [of _ "\<lambda>t. t"]) simp

setup_lifting type_definition_Zone

lift_definition fixedZone :: Zone is "\<lambda>t. t"
  \<comment> \<open>A zone without transitions: every wall-clock time exists.\<close>
  by simp

lift_definition newYorkMarch2024 :: Zone
  is "\<lambda>t. if 1710036000000 \<le> t \<and> t < 1710039600000 then t + 3600000 else t"
  \<comment> \<open>America/New_York around 2024-03-10 (day 19792): the wall-clock times from 02:00 to
      03:00 of that day are skipped and moved one hour forward.\<close>
proof (intro allI conjI)
  fix t :: int
  show "t \<le> (if 1710036000000 \<le> t \<and> t < 1710039600000 then t + 3600000 else t)"
    by simp
  show "(if 1710036000000 \<le> t \<and> t < 1710039600000 then t + 3600000 else t) div 86400000
          = t div 86400000"
  proof (cases "1710036000000 \<le> t \<and> t < 1710039600000")
    case True
    have a: "t div 86400000 = 19792"
      by (rule int_div_pos_eq [of t 86400000 19792 "t - 1710028800000"]) (use True in simp_all)
    have b: "(t + 3600000) div 86400000 = 19792"
      by (rule int_div_pos_eq [of "t + 3600000" 86400000 19792 "t - 1710025200000"])
         (use True in simp_all)
    from True show ?thesis by (simp only: if_P a b)
  next
    case False
    then show ?thesis by (simp only: if_False if_not_P)
  qed
qed

definition getTime :: "Date \<Rightarrow> int" where
  "getTime d = d"

definition getDay :: "Date \<Rightarrow> int" where
  \<comment> \<open>0 = Sunday, ..., 6 = Saturday; day 0 of the axis is a Thursday.\<close>
  "getDay d = (d div 86400000 + 4) mod 7"

definition getHours :: "Date \<Rightarrow> int" where
  "getHours d = (d mod 86400000) div 3600000"

definition getMinutes :: "Date \<Rightarrow> int" where
  "getMinutes d = (d mod 3600000) div 60000"

definition getSeconds :: "Date \<Rightarrow> int" where
  "getSeconds d = (d mod 60000) div 1000"

definition getMilliseconds :: "Date \<Rightarrow> int" where
  "getMilliseconds d = d mod 1000"

definition localTime :: "Date \<Rightarrow> int \<Rightarrow> int \<Rightarrow> int \<Rightarrow> int \<Rightarrow> int" where
  \<comment> \<open>The wall-clock time \<^verbatim>\<open>d.setHours(h, m, s, ms)\<close> asks for: the local day of \<open>d\<close>
      is kept, the time within it is replaced; values out of range run over into the
      neighbouring days.\<close>
  "localTime d h m s ms = (d div 86400000) * 86400000 + h * 3600000 + m * 60000 + s * 1000 + ms"

definition setHours :: "Zone \<Rightarrow> Date \<Rightarrow> int \<Rightarrow> int \<Rightarrow> int \<Rightarrow> int \<Rightarrow> Date" where
  \<comment> \<open>\<^verbatim>\<open>d.setHours(h, m, s, ms)\<close> in zone \<open>z\<close>.\<close>
  "setHours z d h m s ms = resolve z (localTime d h m s ms)"

definition addDays :: "Zone \<Rightarrow> Date \<Rightarrow> int \<Rightarrow> Date" where
  \<comment> \<open>date-fns \<^verbatim>\<open>addDays\<close>: \<^verbatim>\<open>setDate(getDate() + n)\<close>, the local time of day is kept.\<close>
  "addDays z d n = resolve z (d + n * 86400000)"

definition format_yyyyMMdd :: "Date \<Rightarrow> CalDate" where
  \<comment> \<open>\<^verbatim>\<open>format(d, 'yyyy-MM-dd')\<close>: the local calendar date of \<open>d\<close>.\<close>
  "format_yyyyMMdd d = d div 86400000"

definition format_HHmmss :: "Date \<Rightarrow> TimeOfDay" where
  \<comment> \<open>\<^verbatim>\<open>format(d, 'HH:mm:ss')\<close>: the local time of day of \<open>d\<close>.\<close>
  "format_HHmmss d = \<lparr>hh = nat (getHours d), mm = nat (getMinutes d), ss = nat (getSeconds d)\<rparr>"

definition localDate :: "int \<Rightarrow> int \<Rightarrow> int \<Rightarrow> CalDate" where
  \<comment> \<open>The day number of the calendar date year-month-day (proleptic Gregorian).\<close>
  "localDate y m d =
     (let y' = (if m \<le> 2 then y - 1 else y);
          era = y' div 400;
          yoe = y' - era * 400;
          doy = (153 * (if m > 2 then m - 3 else m + 9) + 2) div 5 + d - 1;
          doe = yoe * 365 + yoe div 4 - yoe div 100 + doy
      in era * 146097 + doe - 719468)"

definition newDate :: "Zone \<Rightarrow> CalDate \<Rightarrow> TimeOfDay \<Rightarrow> Date" where
  \<comment> \<open>\<^verbatim>\<open>new Date(`${date}T${time}`)\<close>: a date and a time of day without zone are read
      as local time.\<close>
  "newDate z day t =
     resolve z (day * 86400000 + (int (hh t) * 3600 + int (mm t) * 60 + int (ss t)) * 1000)"

section \<open>Database rows (src/lib/supabase.ts)\<close>

datatype Status = Pending | Taken | Missed | Skipped

record Prescription =
  p_id :: string
  p_name :: string
  p_dosage :: string
  p_is_active :: bool

record DoseSchedule =
  ds_id :: string
  ds_prescription_id :: string
  dose_time :: TimeOfDay
  quantity :: int
  days_of_week :: "int list"
  ds_is_active :: bool

record MedicationLog =
  l_id :: string
  l_prescription_id :: string
  l_scheduled_time :: Date
  l_taken_time :: "Date option"
  l_status :: Status
  is_time_corrected :: bool
  l_notes :: string

record MedicationHistory =
  h_id :: string
  h_prescription_id :: string
  prescription_name :: string
  scheduled_date :: CalDate
  scheduled_time :: TimeOfDay
  actual_taken_datetime :: Date
  quantity_taken :: int
  is_corrected :: bool
  h_notes :: string

section \<open>Schedule expansion: \<^verbatim>\<open>generateScheduledTimes\<close> (src/lib/supabase.ts)\<close>

definition dayOfWeek :: "Date \<Rightarrow> int" where
  \<comment> \<open>\<^verbatim>\<open>date.getDay() === 0 ? 7 : date.getDay()\<close>\<close>
  "dayOfWeek date = (if getDay date = 0 then 7 else getDay date)"

definition scheduleTime :: "Zone \<Rightarrow> Date \<Rightarrow> DoseSchedule \<Rightarrow> Date" where
  \<comment> \<open>The body of the \<^verbatim>\<open>map\<close>: \<^verbatim>\<open>[hours, minutes] = dose_time.split(':').map(Number)\<close>,
      then \<^verbatim>\<open>time = new Date(date); time.setHours(hours, minutes, 0, 0)\<close>.\<close>
  "scheduleTime z date schedule =
     setHours z date (int (hh (dose_time schedule))) (int (mm (dose_time schedule))) 0 0"

definition generateScheduledTimes :: "Zone \<Rightarrow> DoseSchedule list \<Rightarrow> Date \<Rightarrow> Date list" where
  \<comment> \<open>\<open>z\<close> is the zone the program runs in.\<close>
  "generateScheduledTimes z schedules date =
     sort_key getTime
       (map (scheduleTime z date)
         (filter (\<lambda>schedule. ds_is_active schedule \<and> dayOfWeek date \<in> set (days_of_week schedule))
           schedules))"

section \<open>Reconciliation: \<^verbatim>\<open>generateScheduledDoses\<close> (src/components/DailyPrescriptionsModal.tsx)\<close>

record ScheduledDose =
  sd_prescription :: Prescription
  scheduledDateTime :: Date
  sd_quantity :: int
  status :: Status
  sd_log :: "MedicationLog option"
  historyEntry :: "MedicationHistory option"

definition historyMatch :: "Prescription \<Rightarrow> Date \<Rightarrow> Date \<Rightarrow> MedicationHistory \<Rightarrow> bool" where
  \<comment> \<open>The predicate of \<^verbatim>\<open>history.find\<close> (lines 122-126).\<close>
  "historyMatch prescription date scheduledTime h =
     (h_prescription_id h = p_id prescription \<and>
      scheduled_date h = format_yyyyMMdd date \<and>
      scheduled_time h = format_HHmmss scheduledTime)"

definition logMatch :: "Date \<Rightarrow> MedicationLog \<Rightarrow> bool" where
  \<comment> \<open>The predicate of \<^verbatim>\<open>logs.find\<close> (lines 135-138 and PrescriptionCard.tsx 50-53):
      \<^verbatim>\<open>Math.abs(logTime.getTime() - scheduledTime.getTime()) < 60000\<close>.\<close>
  "logMatch scheduledTime l =
     (\<bar>getTime (l_scheduled_time l) - getTime scheduledTime\<bar> < 60000)"

definition reconcile ::
  "Date \<Rightarrow> MedicationLog list \<Rightarrow> MedicationHistory list \<Rightarrow> DoseSchedule list \<Rightarrow>
   Prescription \<Rightarrow> Date \<Rightarrow> Date \<Rightarrow> ScheduledDose" where
  \<comment> \<open>The body of \<^verbatim>\<open>scheduledTimes.forEach\<close> (lines 115-156); \<open>now\<close> is what
      \<^verbatim>\<open>new Date()\<close> returns there.\<close>
  "reconcile now logs history prescriptionSchedules prescription date scheduledTime =
     (let qty = (case find (\<lambda>ds. dose_time ds = format_HHmmss scheduledTime) prescriptionSchedules of
                   None \<Rightarrow> 1
                 | Some ds \<Rightarrow> if quantity ds = 0 then 1 else quantity ds);
          entry = find (historyMatch prescription date scheduledTime) history;
          (st, lg) =
            (case entry of
               Some h \<Rightarrow> (Taken, None)
             | None \<Rightarrow>
                 (case find (logMatch scheduledTime) logs of
                    Some l \<Rightarrow> (l_status l, Some l)
                  | None \<Rightarrow> if scheduledTime < now then (Pending, None) else (Pending, None)))
      in \<lparr>sd_prescription = prescription, scheduledDateTime = scheduledTime, sd_quantity = qty,
          status = st, sd_log = lg, historyEntry = entry\<rparr>)"

definition dosesOfPrescription ::
  "Zone \<Rightarrow> Date \<Rightarrow> MedicationLog list \<Rightarrow> MedicationHistory list \<Rightarrow> DoseSchedule list \<Rightarrow>
   Date \<Rightarrow> Prescription \<Rightarrow> ScheduledDose list" where
  \<comment> \<open>The body of \<^verbatim>\<open>prescriptions.forEach\<close> (lines 111-157).\<close>
  "dosesOfPrescription z now logs history doseSchedules date prescription =
     (let prescriptionSchedules =
            filter (\<lambda>ds. ds_prescription_id ds = p_id prescription) doseSchedules;
          scheduledTimes = generateScheduledTimes z prescriptionSchedules date
      in map (reconcile now logs history prescriptionSchedules prescription date) scheduledTimes)"

function dosesInRange ::
  "Zone \<Rightarrow> Date \<Rightarrow> MedicationLog list \<Rightarrow> MedicationHistory list \<Rightarrow> DoseSchedule list \<Rightarrow>
   Prescription list \<Rightarrow> Date \<Rightarrow> Date \<Rightarrow> ScheduledDose list" where
  \<comment> \<open>\<^verbatim>\<open>for (let date = new Date(start); date <= end; date = addDays(date, 1))\<close>\<close>
  "dosesInRange z now logs history doseSchedules prescriptions date end =
     (if date \<le> end
      then concat (map (dosesOfPrescription z now logs history doseSchedules date) prescriptions)
           @ dosesInRange z now logs history doseSchedules prescriptions (addDays z date 1) end
      else [])"
  by pat_completeness auto
termination
proof (relation "measure (\<lambda>(z, now, logs, history, doseSchedules, prescriptions, date, end).
                  nat (end - date + 1))")
  show "wf (measure (\<lambda>(z, now, logs, history, doseSchedules, prescriptions, date, end).
                  nat (end - date + 1)))"
    by simp
next
  fix z :: Zone and now :: Date and logs :: "MedicationLog list"
    and history :: "MedicationHistory list" and doseSchedules :: "DoseSchedule list"
    and prescriptions :: "Prescription list" and date "end" :: Date
  assume "date \<le> end"
  moreover have "date + 1 * 86400000 \<le> addDays z date 1"
    using resolve [of z] by (simp add: addDays_def)
  ultimately show "((z, now, logs, history, doseSchedules, prescriptions, addDays z date 1, end),
                    (z, now, logs, history, doseSchedules, prescriptions, date, end))
         \<in> measure (\<lambda>(z, now, logs, history, doseSchedules, prescriptions, date, end).
                  nat (end - date + 1))"
    by simp
qed

declare dosesInRange.simps [simp del]

datatype SortOrder = Asc | Desc

definition generateScheduledDoses ::
  "Zone \<Rightarrow> Date \<Rightarrow> Prescription list \<Rightarrow> DoseSchedule list \<Rightarrow> MedicationLog list \<Rightarrow>
   MedicationHistory list \<Rightarrow> CalDate option \<Rightarrow> CalDate option \<Rightarrow> string \<Rightarrow>
   Status option \<Rightarrow> SortOrder \<Rightarrow> ScheduledDose list option" where
  \<comment> \<open>The value passed to \<^verbatim>\<open>setScheduledDoses\<close>; \<open>None\<close> is the early return when a
      date filter is empty. \<^verbatim>\<open>statusFilter\<close> is \<open>None\<close> for \<^verbatim>\<open>'all'\<close>.\<close>
  "generateScheduledDoses z now prescriptions doseSchedules logs history startDate endDate
       selectedPrescription statusFilter sortOrder =
     (case (startDate, endDate) of
        (Some startDay, Some endDay) \<Rightarrow>
          (let start = newDate z startDay \<lparr>hh = 0, mm = 0, ss = 0\<rparr>;
               end = newDate z endDay \<lparr>hh = 23, mm = 59, ss = 59\<rparr>;
               doses = dosesInRange z now logs history doseSchedules prescriptions start end;
               byName = (if selectedPrescription \<noteq> ''all''
                         then filter (\<lambda>dose. p_name (sd_prescription dose) = selectedPrescription) doses
                         else doses);
               byStatus = (case statusFilter of
                             Some wanted \<Rightarrow> filter (\<lambda>dose. status dose = wanted) byName
                           | None \<Rightarrow> byName)
           in Some (case sortOrder of
                      Asc \<Rightarrow> sort_key (\<lambda>dose. getTime (scheduledDateTime dose)) byStatus
                    | Desc \<Rightarrow> sort_key (\<lambda>dose. - getTime (scheduledDateTime dose)) byStatus))
      | _ \<Rightarrow> None)"

record Stats =
  total :: nat
  taken :: nat
  missed :: nat
  pending :: nat

definition getStats :: "ScheduledDose list \<Rightarrow> Stats" where
  \<comment> \<open>\<^verbatim>\<open>getStats\<close> of DailyPrescriptionsModal.tsx (lines 252-259).\<close>
  "getStats scheduledDoses =
     \<lparr>total = length scheduledDoses,
      taken = length (filter (\<lambda>d. status d = Taken) scheduledDoses),
      missed = length (filter (\<lambda>d. status d = Missed) scheduledDoses),
      pending = length (filter (\<lambda>d. status d = Pending) scheduledDoses)\<rparr>"

subsection \<open>\<^verbatim>\<open>getTodaysDoses\<close> (src/components/PrescriptionCard.tsx)\<close>

record TodaysDose =
  td_time :: Date
  td_log :: "MedicationLog option"
  td_status :: Status

definition getTodaysDoses :: "Zone \<Rightarrow> DoseSchedule list \<Rightarrow> MedicationLog list \<Rightarrow> Date \<Rightarrow> TodaysDose list" where
  \<comment> \<open>\<open>today\<close> is what \<^verbatim>\<open>new Date()\<close> returns; \<^verbatim>\<open>log?.status || 'pending'\<close>.\<close>
  "getTodaysDoses z doseSchedules logs today =
     map (\<lambda>time.
            let lg = find (logMatch time) logs
            in \<lparr>td_time = time, td_log = lg,
                td_status = (case lg of Some l \<Rightarrow> l_status l | None \<Rightarrow> Pending)\<rparr>)
         (generateScheduledTimes z doseSchedules today)"

section \<open>Timing of a taken dose\<close>

text \<open>
  JavaScript numbers are binary64 floating-point numbers. The millisecond differences
  below are integers of magnitude far below \<open>2^53\<close> and are exact. Their quotient by
  \<open>1000 * 60\<close> is rounded to the nearest float, which is monotone and leaves every
  float (15, 60, 1 and every half-integer of this size) as it is; a quotient that is not
  a multiple of one half is at least 1/120000 away from the next one, far more than the
  rounding error. So neither the comparisons with 15, 60 and 1 nor the result of
  \<^verbatim>\<open>Math.round\<close> depend on that rounding, and the model divides in the reals.
  \<^verbatim>\<open>Math.round\<close> rounds to the nearest integer, a half upwards.
\<close>

definition Math_round :: "real \<Rightarrow> int" where
  "Math_round x = \<lfloor>x + 1 / 2\<rfloor>"

definition digitChar :: "nat \<Rightarrow> char" where
  "digitChar n = ''0123456789'' ! n"

fun showNat :: "nat \<Rightarrow> string" where
  "showNat n = (if n < 10 then [digitChar n] else showNat (n div 10) @ [digitChar (n mod 10)])"

definition diffMinutes :: "Date \<Rightarrow> Date \<Rightarrow> int" where
  \<comment> \<open>The constant \<^verbatim>\<open>diffMinutes\<close> of every \<^verbatim>\<open>getTimeDifference\<close>:
      \<^verbatim>\<open>Math.round((actual.getTime() - scheduled.getTime()) / (1000 * 60))\<close>.\<close>
  "diffMinutes scheduled actual =
     Math_round (real_of_int (getTime actual - getTime scheduled) / (1000 * 60))"

definition timeDifferenceLabel :: "int \<Rightarrow> string" where
  \<comment> \<open>The three \<^verbatim>\<open>return\<close>s of \<^verbatim>\<open>getTimeDifference\<close>.\<close>
  "timeDifferenceLabel d =
     (if d = 0 then ''On time''
      else if d > 0 then showNat (nat d) @ '' min late''
      else showNat (nat \<bar>d\<bar>) @ '' min early'')"

subsection \<open>src/components/DailyPrescriptionsModal.tsx\<close>

definition daily_getTimeDifference :: "Date \<Rightarrow> Date \<Rightarrow> string" where
  "daily_getTimeDifference scheduled actual = timeDifferenceLabel (diffMinutes scheduled actual)"

definition daily_getTimeDifferenceColor :: "Date \<Rightarrow> Date \<Rightarrow> string" where
  \<comment> \<open>Lines 205-212: the quotient is not rounded here.\<close>
  "daily_getTimeDifferenceColor scheduled actual =
     (let minutes = \<bar>real_of_int (getTime actual - getTime scheduled) / (1000 * 60)\<bar>
      in if minutes \<le> 15 then ''text-green-600''
         else if minutes \<le> 60 then ''text-yellow-600''
         else ''text-red-600'')"

definition correctionIndicator :: "ScheduledDose \<Rightarrow> bool" where
  \<comment> \<open>Lines 535-541: whether "Time was corrected after initial entry" is shown.\<close>
  "correctionIndicator dose =
     (case historyEntry dose of
        None \<Rightarrow> False
      | Some h \<Rightarrow>
          (let timeDiffMinutes =
                 \<bar>real_of_int (getTime (actual_taken_datetime h) - getTime (scheduledDateTime dose))
                    / (1000 * 60)\<bar>
           in timeDiffMinutes > 1))"

subsection \<open>src/components/PrescriptionHistoryModal.tsx\<close>

definition history_getTimeDifference :: "Zone \<Rightarrow> CalDate \<Rightarrow> TimeOfDay \<Rightarrow> Date \<Rightarrow> string" where
  "history_getTimeDifference z scheduled scheduledTime actual =
     timeDifferenceLabel (diffMinutes (newDate z scheduled scheduledTime) actual)"

definition history_getTimeDifferenceColor :: "Zone \<Rightarrow> CalDate \<Rightarrow> TimeOfDay \<Rightarrow> Date \<Rightarrow> string" where
  \<comment> \<open>Lines 195-203: the rounded \<^verbatim>\<open>diffMinutes\<close> is compared.\<close>
  "history_getTimeDifferenceColor z scheduled scheduledTime actual =
     (let d = diffMinutes (newDate z scheduled scheduledTime) actual
      in if \<bar>d\<bar> \<le> 15 then ''text-green-600 bg-green-50''
         else if \<bar>d\<bar> \<le> 60 then ''text-yellow-600 bg-yellow-50''
         else ''text-red-600 bg-red-50'')"

record HistoryStats =
  hs_total :: nat
  onTime :: nat
  corrected :: nat

definition history_getStats :: "Zone \<Rightarrow> MedicationHistory list \<Rightarrow> HistoryStats" where
  \<comment> \<open>Lines 243-255, over \<^verbatim>\<open>filteredHistory\<close>.\<close>
  "history_getStats z filteredHistory =
     \<lparr>hs_total = length filteredHistory,
      onTime = length (filter
        (\<lambda>entry.
           let scheduledDateTime = newDate z (scheduled_date entry) (scheduled_time entry);
               actualDateTime = actual_taken_datetime entry;
               minutes = \<bar>real_of_int (getTime actualDateTime - getTime scheduledDateTime) / (1000 * 60)\<bar>
           in minutes \<le> 15)
        filteredHistory),
      corrected = length (filter is_corrected filteredHistory)\<rparr>"

section \<open>Percentages\<close>

text \<open>
  The two percentages are \<^verbatim>\<open>Math.round((a / b) * 100)\<close> for counts \<open>a \<le> b\<close>. Here the
  rounding of the quotient and of the product to the nearest float does show: for 23 of
  40 the product is just below 57.5 and the result is 57. The rounding function is a
  parameter \<open>fl\<close> of the model; the theorems assume of it what holds of binary64
  rounding on the values that occur: zero is kept, and the relative error is at most
  \<open>2^-53\<close>.
\<close>

definition onTimePercent :: "(real \<Rightarrow> real) \<Rightarrow> HistoryStats \<Rightarrow> int" where
  \<comment> \<open>PrescriptionHistoryModal.tsx line 301:
      \<^verbatim>\<open>stats.total > 0 ? Math.round((stats.onTime / stats.total) * 100) : 0\<close>\<close>
  "onTimePercent fl stats =
     (if hs_total stats > 0
      then Math_round (fl (fl (real (onTime stats) / real (hs_total stats)) * 100))
      else 0)"

definition getAdherenceRate :: "(real \<Rightarrow> real) \<Rightarrow> MedicationLog list \<Rightarrow> int" where
  \<comment> \<open>\<^verbatim>\<open>getAdherenceRate\<close> of the Dashboard component, over the user's logs.\<close>
  "getAdherenceRate fl logs =
     (if length logs = 0 then 0
      else (let takenLogs = length (filter (\<lambda>l. l_status l = Taken) logs)
            in Math_round (fl (fl (real takenLogs / real (length logs)) * 100))))"

section \<open>Editing a history entry: \<^verbatim>\<open>handleSaveEdit\<close> (src/components/PrescriptionHistoryModal.tsx)\<close>

record EditState =
  editingEntry :: "string option"
  editDateTime :: "Date option"
  editNotes :: string

definition updateHistory :: "string \<Rightarrow> Date \<Rightarrow> string \<Rightarrow> MedicationHistory list \<Rightarrow> MedicationHistory list" where
  \<comment> \<open>\<^verbatim>\<open>supabase.from('medication_history').update({...}).eq('id', editingEntry)\<close> on the
      rows of the table.\<close>
  "updateHistory entryId localDateTime newNotes table =
     map (\<lambda>row. if h_id row = entryId
                 then row\<lparr>actual_taken_datetime := localDateTime, h_notes := newNotes, is_corrected := True\<rparr>
                 else row)
         table"

definition handleSaveEdit ::
  "EditState \<Rightarrow> MedicationHistory list \<Rightarrow> (EditState \<times> MedicationHistory list) option" where
  \<comment> \<open>The edit state and the table after a save; \<open>None\<close> is the early return
      \<^verbatim>\<open>if (!editingEntry || !editDateTime) return\<close> (null and the empty string are falsy;
      an empty \<^verbatim>\<open>editDateTime\<close> is \<open>None\<close>).\<close>
  "handleSaveEdit st table =
     (case (editingEntry st, editDateTime st) of
        (Some entryId, Some localDateTime) \<Rightarrow>
          if entryId = '''' then None
          else Some (\<lparr>editingEntry = None, editDateTime = None, editNotes = ''''\<rparr>,
                     updateHistory entryId localDateTime (editNotes st) table)
      | _ \<Rightarrow> None)"

section \<open>Example data\<close>

definition ex_presA :: Prescription where
  "ex_presA = \<lparr>p_id = ''A'', p_name = ''Amoxicillin'', p_dosage = ''500 mg'', p_is_active = True\<rparr>"

definition ex_rule :: "nat \<Rightarrow> nat \<Rightarrow> nat \<Rightarrow> int list \<Rightarrow> DoseSchedule" where
  \<comment> \<open>An active rule of prescription A at the given time of day on the given weekdays.\<close>
  "ex_rule h m s days =
     \<lparr>ds_id = ''r1'', ds_prescription_id = ''A'', dose_time = \<lparr>hh = h, mm = m, ss = s\<rparr>,
      quantity = 2, days_of_week = days, ds_is_active = True\<rparr>"

definition ex_at :: "int \<Rightarrow> int \<Rightarrow> int \<Rightarrow> nat \<Rightarrow> nat \<Rightarrow> nat \<Rightarrow> Date" where
  \<comment> \<open>\<^verbatim>\<open>new Date('yyyy-MM-ddTHH:mm:ss')\<close> in a zone without transitions.\<close>
  "ex_at y mo d h mi s = newDate fixedZone (localDate y mo d) \<lparr>hh = h, mm = mi, ss = s\<rparr>"

definition ex_hist :: "string \<Rightarrow> string \<Rightarrow> CalDate \<Rightarrow> nat \<Rightarrow> nat \<Rightarrow> nat \<Rightarrow> Date \<Rightarrow> MedicationHistory" where
  \<comment> \<open>A history row: id, prescription id, scheduled date, scheduled time, actual time.\<close>
  "ex_hist i pid day h m s actual =
     \<lparr>h_id = i, h_prescription_id = pid, prescription_name = ''Amoxicillin'',
      scheduled_date = day, scheduled_time = \<lparr>hh = h, mm = m, ss = s\<rparr>,
      actual_taken_datetime = actual, quantity_taken = 2, is_corrected = False, h_notes = ''''\<rparr>"

definition ex_log :: "string \<Rightarrow> string \<Rightarrow> Date \<Rightarrow> Status \<Rightarrow> MedicationLog" where
  \<comment> \<open>A log row: id, prescription id, scheduled timestamp, status.\<close>
  "ex_log i pid sched st =
     \<lparr>l_id = i, l_prescription_id = pid, l_scheduled_time = sched, l_taken_time = None,
      l_status = st, is_time_corrected = False, l_notes = ''''\<rparr>"

definition ex_daily :: DoseSchedule where
  \<comment> \<open>Prescription A, every day at 08:00:00.\<close>
  "ex_daily = ex_rule 8 0 0 [1, 2, 3, 4, 5, 6, 7]"

definition ex_day :: Date where
  \<comment> \<open>Wednesday 2024-01-10, local midnight.\<close>
  "ex_day = ex_at 2024 1 10 0 0 0"

definition ex_inst :: Date where
  "ex_inst = ex_at 2024 1 10 8 0 0"

definition ex_now :: Date where
  "ex_now = ex_at 2024 1 12 9 0 0"

section \<open>Properties of zones\<close>

lemma resolve_fixedZone [simp]: "resolve fixedZone t = t"
  by (simp add: fixedZone.rep_eq)

lemma resolve_ge: "t \<le> resolve z t"
  using resolve [of z] by simp

lemma resolve_same_day: "resolve z t div 86400000 = t div 86400000"
  using resolve [of z] by simp

lemma resolve_newYorkMarch2024:
  "resolve newYorkMarch2024 t
     = (if 1710036000000 \<le> t \<and> t < 1710039600000 then t + 3600000 else t)"
  by (simp add: newYorkMarch2024.rep_eq)

section \<open>Properties of the schedule expansion\<close>

lemma getDay_range: "0 \<le> getDay d \<and> getDay d \<le> 6"
  by (simp add: getDay_def)

lemma dayOfWeek_range: "1 \<le> dayOfWeek d \<and> dayOfWeek d \<le> 7"
  using getDay_range [of d] by (simp add: dayOfWeek_def)

lemma dayOfWeek_sunday: "(dayOfWeek d = 7) = (getDay d = 0)"
  using getDay_range [of d] by (simp add: dayOfWeek_def)

lemma mset_generateScheduledTimes:
  "mset (generateScheduledTimes z schedules date) =
     image_mset (scheduleTime z date)
       (filter_mset (\<lambda>s. ds_is_active s \<and> dayOfWeek date \<in> set (days_of_week s)) (mset schedules))"
  by (simp add: generateScheduledTimes_def)

lemma set_generateScheduledTimes:
  "set (generateScheduledTimes z schedules date) =
     scheduleTime z date ` {s \<in> set schedules. ds_is_active s \<and> dayOfWeek date \<in> set (days_of_week s)}"
  by (simp add: generateScheduledTimes_def)

lemma localTime_parts:
  assumes hb: "0 \<le> h" "h < 24" and mb: "0 \<le> m" "m < 60"
  shows "getHours (localTime date h m 0 0) = h"
    and "getMinutes (localTime date h m 0 0) = m"
    and "getSeconds (localTime date h m 0 0) = 0"
    and "getMilliseconds (localTime date h m 0 0) = 0"
    and "localTime date h m 0 0 div 86400000 = date div 86400000"
proof -
  define q where "q = date div 86400000"
  have t: "localTime date h m 0 0 = q * 86400000 + (h * 3600000 + m * 60000)"
    by (simp add: localTime_def q_def)
  have r: "0 \<le> h * 3600000 + m * 60000" "h * 3600000 + m * 60000 < 86400000"
    using hb mb by auto
  have md: "(q * 86400000 + (h * 3600000 + m * 60000)) mod 86400000 = h * 3600000 + m * 60000"
    using r by (simp add: mod_pos_pos_trivial)
  show "getHours (localTime date h m 0 0) = h"
    unfolding getHours_def t md using hb mb by simp
  have m36: "(q * 86400000 + (h * 3600000 + m * 60000)) mod 3600000 = m * 60000"
  proof -
    have "q * 86400000 + (h * 3600000 + m * 60000) = m * 60000 + (q * 24 + h) * 3600000"
      by simp
    then show ?thesis using mb by (simp only: mod_mult_self1) simp
  qed
  show "getMinutes (localTime date h m 0 0) = m"
    unfolding getMinutes_def t m36 by simp
  have m6: "(q * 86400000 + (h * 3600000 + m * 60000)) mod 60000 = 0"
  proof -
    have "q * 86400000 + (h * 3600000 + m * 60000) = 0 + (q * 1440 + h * 60 + m) * 60000"
      by simp
    then show ?thesis by (simp only: mod_mult_self1) simp
  qed
  show "getSeconds (localTime date h m 0 0) = 0"
    unfolding getSeconds_def t m6 by simp
  have m1: "(q * 86400000 + (h * 3600000 + m * 60000)) mod 1000 = 0"
  proof -
    have "q * 86400000 + (h * 3600000 + m * 60000) = 0 + (q * 86400 + h * 3600 + m * 60) * 1000"
      by simp
    then show ?thesis by (simp only: mod_mult_self1) simp
  qed
  show "getMilliseconds (localTime date h m 0 0) = 0"
    unfolding getMilliseconds_def t m1 by simp
  have "(q * 86400000 + (h * 3600000 + m * 60000)) div 86400000 = q"
  proof -
    have "(h * 3600000 + m * 60000 + q * 86400000) div 86400000
            = q + (h * 3600000 + m * 60000) div 86400000"
      by simp
    then show ?thesis using r by (simp add: add.commute div_pos_pos_trivial)
  qed
  then show "localTime date h m 0 0 div 86400000 = date div 86400000"
    unfolding t by (simp add: q_def)
qed

lemma scheduleTime_eq:
  "scheduleTime z date s
     = resolve z (localTime date (int (hh (dose_time s))) (int (mm (dose_time s))) 0 0)"
  by (simp add: scheduleTime_def setHours_def localTime_def)

text \<open>The instant stays on the target date, also when its time of day is skipped.\<close>

lemma scheduleTime_day:
  assumes "hh (dose_time s) < 24" and "mm (dose_time s) < 60"
  shows "format_yyyyMMdd (scheduleTime z date s) = format_yyyyMMdd date"
proof -
  have "localTime date (int (hh (dose_time s))) (int (mm (dose_time s))) 0 0 div 86400000
          = date div 86400000"
    using assms by (intro localTime_parts(5)) simp_all
  then show ?thesis
    by (simp add: format_yyyyMMdd_def scheduleTime_eq resolve_same_day)
qed

lemma scheduleTime_parts:
  assumes "hh (dose_time s) < 24" and "mm (dose_time s) < 60"
    and "resolve z (localTime date (int (hh (dose_time s))) (int (mm (dose_time s))) 0 0)
           = localTime date (int (hh (dose_time s))) (int (mm (dose_time s))) 0 0"
  shows "getHours (scheduleTime z date s) = int (hh (dose_time s))"
    and "getMinutes (scheduleTime z date s) = int (mm (dose_time s))"
    and "getSeconds (scheduleTime z date s) = 0"
    and "getMilliseconds (scheduleTime z date s) = 0"
proof -
  have b: "0 \<le> int (hh (dose_time s))" "int (hh (dose_time s)) < 24"
          "0 \<le> int (mm (dose_time s))" "int (mm (dose_time s)) < 60"
    using assms(1,2) by simp_all
  note parts = localTime_parts [OF b, of date]
  show "getHours (scheduleTime z date s) = int (hh (dose_time s))"
    and "getMinutes (scheduleTime z date s) = int (mm (dose_time s))"
    and "getSeconds (scheduleTime z date s) = 0"
    and "getMilliseconds (scheduleTime z date s) = 0"
    by (simp_all only: scheduleTime_eq assms(3) parts)
qed

text \<open>
  A time of day that the zone skips: in America/New_York a rule at 02:30 yields, on
  2024-03-10, the instant 03:30 of that day.
\<close>

lemma scheduleTime_in_skipped_hour:
  "scheduleTime newYorkMarch2024 (ex_at 2024 3 10 0 0 0) (ex_rule 2 30 0 [7]) = ex_at 2024 3 10 3 30 0"
  "getHours (scheduleTime newYorkMarch2024 (ex_at 2024 3 10 0 0 0) (ex_rule 2 30 0 [7])) = 3"
  "format_yyyyMMdd (scheduleTime newYorkMarch2024 (ex_at 2024 3 10 0 0 0) (ex_rule 2 30 0 [7]))
     = localDate 2024 3 10"
  by (simp_all add: scheduleTime_eq localTime_def resolve_newYorkMarch2024 getHours_def
      format_yyyyMMdd_def ex_at_def newDate_def localDate_def ex_rule_def)

lemma ex_dates:
  "ex_at 2024 1 7 0 0 0 = 1704585600000"
  "ex_at 2024 1 10 0 0 0 = 1704844800000"
  by (simp_all add: ex_at_def newDate_def localDate_def)

section \<open>Properties of the reconciliation\<close>

lemma reconcile_historyEntry:
  "historyEntry (reconcile now logs history schedules prescription date scheduledTime)
     = find (historyMatch prescription date scheduledTime) history"
  by (simp add: reconcile_def Let_def split: option.splits)

lemma reconcile_status:
  "status (reconcile now logs history schedules prescription date scheduledTime)
     = (case find (historyMatch prescription date scheduledTime) history of
          Some h \<Rightarrow> Taken
        | None \<Rightarrow> (case find (logMatch scheduledTime) logs of
                     Some l \<Rightarrow> l_status l
                   | None \<Rightarrow> Pending))"
  by (simp add: reconcile_def Let_def split: option.splits)

lemma reconcile_log:
  "sd_log (reconcile now logs history schedules prescription date scheduledTime)
     = (case find (historyMatch prescription date scheduledTime) history of
          Some h \<Rightarrow> None
        | None \<Rightarrow> find (logMatch scheduledTime) logs)"
  by (simp add: reconcile_def Let_def split: option.splits)

lemma logMatch_iff: "logMatch t l = (\<bar>l_scheduled_time l - t\<bar> < 60000)"
  by (simp add: logMatch_def getTime_def)

lemma logMatch_fun: "logMatch t = (\<lambda>l. \<bar>l_scheduled_time l - t\<bar> < 60000)"
  by (rule ext) (rule logMatch_iff)

lemma find_first_match:
  "\<forall>x \<in> set pre. \<not> P x \<Longrightarrow> P h \<Longrightarrow> find P (pre @ h # post) = Some h"
  by (induction pre) auto

lemma generated_same_day:
  assumes "t \<in> set (generateScheduledTimes z schedules date)"
    and "\<forall>r \<in> set schedules. hh (dose_time r) < 24 \<and> mm (dose_time r) < 60"
  shows "format_yyyyMMdd t = format_yyyyMMdd date"
proof -
  from assms(1) obtain r where r: "r \<in> set schedules" and t: "t = scheduleTime z date r"
    unfolding set_generateScheduledTimes by blast
  from assms(2) r have "hh (dose_time r) < 24" "mm (dose_time r) < 60" by auto
  then show ?thesis unfolding t by (rule scheduleTime_day)
qed

lemma ex_inst_generated:
  "generateScheduledTimes fixedZone [ex_daily] ex_day = [ex_inst]"
  by (simp add: generateScheduledTimes_def scheduleTime_def setHours_def localTime_def dayOfWeek_def getDay_def
      ex_daily_def ex_day_def ex_inst_def ex_at_def newDate_def localDate_def ex_rule_def)

lemma ex_inst_format:
  "format_yyyyMMdd ex_day = localDate 2024 1 10"
  "format_yyyyMMdd ex_inst = localDate 2024 1 10"
  "format_HHmmss ex_inst = \<lparr>hh = 8, mm = 0, ss = 0\<rparr>"
  by (simp_all add: format_yyyyMMdd_def format_HHmmss_def getHours_def getMinutes_def
      getSeconds_def ex_day_def ex_inst_def ex_at_def newDate_def localDate_def)

lemma reconcile_cong_history:
  "find (historyMatch prescription date scheduledTime) history
     = find (historyMatch prescription date scheduledTime) history'
   \<Longrightarrow> reconcile now logs history schedules prescription date scheduledTime
       = reconcile now logs history' schedules prescription date scheduledTime"
  by (simp add: reconcile_def)

lemma foreign_log_example:
  "ex_inst \<in> set (generateScheduledTimes fixedZone [ex_daily] ex_day)
   \<and> sd_log (reconcile ex_now [ex_log ''l7'' ''B'' (ex_at 2024 1 10 8 0 0) Missed] []
               [ex_daily] ex_presA ex_day ex_inst)
       = Some (ex_log ''l7'' ''B'' (ex_at 2024 1 10 8 0 0) Missed)
   \<and> l_prescription_id (ex_log ''l7'' ''B'' (ex_at 2024 1 10 8 0 0) Missed) \<noteq> p_id ex_presA
   \<and> status (reconcile ex_now [ex_log ''l7'' ''B'' (ex_at 2024 1 10 8 0 0) Missed] []
               [ex_daily] ex_presA ex_day ex_inst) = Missed"
  by (simp add: ex_inst_generated reconcile_status reconcile_log logMatch_iff
      ex_log_def ex_presA_def ex_inst_def)

section \<open>Properties of the timing computations\<close>

lemma Math_round_div: "Math_round (real_of_int x / (1000 * 60)) = (x + 30000) div 60000"
proof -
  have "real_of_int x / (1000 * 60) + 1 / 2 = real_of_int (x + 30000) / real_of_int 60000"
    by (simp add: field_simps)
  then have "Math_round (real_of_int x / (1000 * 60)) = \<lfloor>real_of_int (x + 30000) / real_of_int 60000\<rfloor>"
    by (simp only: Math_round_def)
  also have "\<dots> = (x + 30000) div 60000"
    by (rule floor_divide_of_int_eq)
  finally show ?thesis .
qed

lemma diffMinutes_eq: "diffMinutes scheduled actual = (actual - scheduled + 30000) div 60000"
  unfolding diffMinutes_def getTime_def by (rule Math_round_div)

lemma abs_minutes_le: "(\<bar>real_of_int x / (1000 * 60)\<bar> \<le> real_of_int k) = (\<bar>x\<bar> \<le> k * 60000)"
proof -
  have "\<bar>real_of_int x / (1000 * 60)\<bar> = real_of_int \<bar>x\<bar> / 60000" by simp
  also have "(\<dots> \<le> real_of_int k) = (real_of_int \<bar>x\<bar> \<le> real_of_int (k * 60000))"
    by (simp add: field_simps)
  also have "\<dots> = (\<bar>x\<bar> \<le> k * 60000)" by (simp only: of_int_le_iff)
  finally show ?thesis .
qed

lemma int_div_le_iff: "0 < b \<Longrightarrow> (a div b \<le> k) = (a < (k + 1) * (b::int))"
proof -
  assume b: "0 < b"
  have "(a div b \<le> k) = (\<lfloor>real_of_int a / real_of_int b\<rfloor> \<le> k)"
    by (simp only: floor_divide_of_int_eq)
  also have "\<dots> = (real_of_int a / real_of_int b < real_of_int k + 1)"
    by (rule floor_le_iff)
  also have "\<dots> = (real_of_int a < real_of_int ((k + 1) * b))"
    using b by (simp add: pos_divide_less_eq)
  also have "\<dots> = (a < (k + 1) * b)"
    by (simp only: of_int_less_iff)
  finally show ?thesis .
qed

lemma int_le_div_iff: "0 < b \<Longrightarrow> (k \<le> a div b) = (k * b \<le> (a::int))"
proof -
  assume b: "0 < b"
  have "(k \<le> a div b) = (k \<le> \<lfloor>real_of_int a / real_of_int b\<rfloor>)"
    by (simp only: floor_divide_of_int_eq)
  also have "\<dots> = (real_of_int k \<le> real_of_int a / real_of_int b)"
    by (rule le_floor_iff)
  also have "\<dots> = (real_of_int (k * b) \<le> real_of_int a)"
    using b by (simp add: pos_le_divide_eq)
  also have "\<dots> = (k * b \<le> a)"
    by (simp only: of_int_le_iff)
  finally show ?thesis .
qed

lemma rounded_abs_le_iff:
  "0 \<le> k \<Longrightarrow>
   (\<bar>(x + 30000) div 60000\<bar> \<le> k) = (- (k * 60000) - 30000 \<le> x \<and> x < k * 60000 + (30000::int))"
  by (simp add: abs_le_iff int_div_le_iff int_le_div_iff algebra_simps) linarith

lemma rounded_gt1_imp: "\<bar>(x + 30000) div 60000\<bar> > 1 \<Longrightarrow> \<bar>x::int\<bar> > 60000"
  using rounded_abs_le_iff [of 1 x] by linarith

lemma daily_color_eq:
  "daily_getTimeDifferenceColor scheduled actual =
     (if \<bar>actual - scheduled\<bar> \<le> 900000 then ''text-green-600''
      else if \<bar>actual - scheduled\<bar> \<le> 3600000 then ''text-yellow-600''
      else ''text-red-600'')"
  using abs_minutes_le [of "actual - scheduled" 15] abs_minutes_le [of "actual - scheduled" 60]
  by (simp add: daily_getTimeDifferenceColor_def getTime_def Let_def)

lemma correctionIndicator_eq:
  "correctionIndicator dose =
     (case historyEntry dose of
        None \<Rightarrow> False
      | Some h \<Rightarrow> \<bar>actual_taken_datetime h - scheduledDateTime dose\<bar> > 60000)"
proof (cases "historyEntry dose")
  case None
  then show ?thesis by (simp add: correctionIndicator_def)
next
  case (Some h)
  have "(\<bar>real_of_int (actual_taken_datetime h - scheduledDateTime dose) / (1000 * 60)\<bar> > 1)
        = (\<bar>actual_taken_datetime h - scheduledDateTime dose\<bar> > 60000)"
    using abs_minutes_le [of "actual_taken_datetime h - scheduledDateTime dose" 1]
    by (simp add: not_le [symmetric])
  with Some show ?thesis by (simp add: correctionIndicator_def getTime_def Let_def)
qed

text \<open>
  The classifier of the history modal buckets the rounded offset by the thresholds 15 and
  60; the one of the daily modal buckets the exact offset. They give different buckets
  exactly for offsets strictly between 15 and 15.5 minutes or between 60 and 60.5 minutes
  (and at 15.5 and 60.5 minutes early).
\<close>

lemma history_color_buckets_rounded_offset:
  "history_getTimeDifferenceColor z day t actual =
     (if \<bar>diffMinutes (newDate z day t) actual\<bar> \<le> 15 then ''text-green-600 bg-green-50''
      else if \<bar>diffMinutes (newDate z day t) actual\<bar> \<le> 60 then ''text-yellow-600 bg-yellow-50''
      else ''text-red-600 bg-red-50'')"
  by (simp add: history_getTimeDifferenceColor_def Let_def)

lemma daily_color_green_iff:
  "(daily_getTimeDifferenceColor scheduled actual = ''text-green-600'')
     = (\<bar>actual - scheduled\<bar> \<le> 900000)"
  by (simp add: daily_color_eq)

lemma rounded_offset_on_time_iff:
  "(\<bar>diffMinutes scheduled actual\<bar> \<le> 15)
     = (- 930000 \<le> actual - scheduled \<and> actual - scheduled < 930000)"
  using rounded_abs_le_iff [of 15 "actual - scheduled"] by (simp add: diffMinutes_eq)

section \<open>Properties of the counts and percentages\<close>

text \<open>
  The percentage is an integer nearest to the exact \<open>100 * t / n\<close>: the two float
  roundings move the product by less than \<open>2^-45\<close>, and an exact percentage that is not
  a half-integer is at least \<open>1 / (2 * n)\<close> away from the next one.
\<close>

lemma percent_nearest:
  fixes fl :: "real \<Rightarrow> real" and t n :: nat
  assumes fl0: "fl 0 = 0"
    and flerr: "\<forall>x. 1 / 2 ^ 64 \<le> x \<and> x \<le> 128 \<longrightarrow> \<bar>fl x - x\<bar> \<le> x / 2 ^ 53"
    and tn: "t \<le> n" and n0: "0 < n" and nb: "n < 2 ^ 44"
  shows "\<bar>real_of_int (Math_round (fl (fl (real t / real n) * 100))) - 100 * real t / real n\<bar> \<le> 1 / 2"
proof (cases "t = 0")
  case True
  then show ?thesis by (simp add: fl0 Math_round_def)
next
  case False
  define x where "x = real t / real n"
  define a where "a = fl x"
  define y where "y = a * 100"
  define b where "b = fl y"
  define r where "r = Math_round b"
  define k where "k = r * int n - 100 * int t"
  define e :: real where "e = 1 / 2 ^ 53"
  define d :: real where "d = 1 / 2 ^ 45"
  have e_pos: "0 < e" and e_small: "228 * e \<le> d" and e_tiny: "e \<le> 1 / 2"
    by (simp_all add: e_def d_def)
  have rn: "0 < real n" "real n < 2 ^ 44"
    using n0 nb by (simp_all add: of_nat_less_numeral_power_cancel_iff)
  have xn: "x * real n = real t"
    using n0 by (simp add: x_def)
  have x_le: "x \<le> 1"
    using tn n0 by (simp add: x_def)
  have x_nonneg: "0 \<le> x" by (simp add: x_def)
  have "1 \<le> real t" using False by simp
  then have "1 \<le> x * real n" by (simp add: xn)
  also have "x * real n \<le> x * 2 ^ 44"
    using rn(2) x_nonneg by (intro mult_left_mono) simp_all
  finally have x_ge: "1 / 2 ^ 44 \<le> x" by (simp add: field_simps)
  have xe: "x / 2 ^ 53 = x * e" by (simp add: e_def)
  have xe_le: "x * e \<le> e" and xe_half: "x * e \<le> x / 2"
    using x_le x_nonneg e_pos e_tiny mult_left_le_one_le [of e x] mult_left_mono [of e "1 / 2" x]
    by (simp_all add: mult.commute)
  have a_err: "\<bar>a - x\<bar> \<le> x * e"
  proof -
    have "1 / 2 ^ 64 \<le> x \<and> x \<le> 128" using x_ge x_le by simp
    with flerr have "\<bar>fl x - x\<bar> \<le> x / 2 ^ 53" by blast
    then show ?thesis by (simp only: a_def xe)
  qed
  have a_hi: "a \<le> x + e" and a_lo: "x / 2 \<le> a" and a_near: "\<bar>a - x\<bar> \<le> e"
    using a_err xe_le xe_half by linarith+
  have y_lo: "1 / 2 ^ 64 \<le> y"
  proof -
    have "1 / 2 ^ 64 \<le> (1 / 2 ^ 44) / 2 * (100::real)" by simp
    also have "\<dots> \<le> x / 2 * 100" using x_ge by simp
    also have "\<dots> \<le> a * 100" using a_lo by simp
    finally show ?thesis by (simp add: y_def)
  qed
  have y_hi: "y \<le> 128"
  proof -
    have "y \<le> (1 + e) * 100" using a_hi x_le by (simp add: y_def)
    also have "\<dots> \<le> 128" by (simp add: e_def)
    finally show ?thesis .
  qed
  have ye: "y / 2 ^ 53 = y * e" by (simp add: e_def)
  have b_err: "\<bar>b - y\<bar> \<le> y * e"
  proof -
    from flerr y_lo y_hi have "\<bar>fl y - y\<bar> \<le> y / 2 ^ 53" by blast
    then show ?thesis by (simp only: b_def ye)
  qed
  have "y * e \<le> 128 * e"
    using y_hi e_pos by (intro mult_right_mono) simp_all
  with b_err have b_near: "\<bar>b - y\<bar> \<le> 128 * e" by linarith
  have y_near: "\<bar>y - 100 * x\<bar> \<le> 100 * e"
    using a_near by (simp add: y_def)
  have close: "\<bar>b - 100 * x\<bar> \<le> d"
    using b_near y_near e_small by linarith
  have r_le: "real_of_int r \<le> b + 1 / 2" and r_gt: "b + 1 / 2 < real_of_int r + 1"
    unfolding r_def Math_round_def by linarith+
  have up: "real_of_int r - 100 * x \<le> 1 / 2 + d"
    and lo: "- (1 / 2 + d) \<le> real_of_int r - 100 * x"
    using close r_le r_gt by linarith+
  have kx: "real_of_int k = (real_of_int r - 100 * x) * real n"
    by (simp add: k_def algebra_simps xn)
  have dn: "d * real n < 1 / 2"
    using rn by (simp add: d_def field_simps)
  have "real_of_int k \<le> (1 / 2 + d) * real n"
    unfolding kx using up rn(1) by (intro mult_right_mono) simp_all
  also have "\<dots> = real n / 2 + d * real n" by (simp add: algebra_simps)
  finally have "real_of_int (2 * k) < real_of_int (int n + 1)" using dn by simp
  then have "2 * k < int n + 1" by (simp only: of_int_less_iff)
  then have k_up: "2 * k \<le> int n" by simp
  have "(- (1 / 2 + d)) * real n \<le> real_of_int k"
    unfolding kx using lo rn(1) by (intro mult_right_mono) simp_all
  moreover have "(- (1 / 2 + d)) * real n = - (real n / 2) - d * real n"
    by (simp add: algebra_simps)
  ultimately have "real_of_int (- (int n + 1)) < real_of_int (2 * k)" using dn by simp
  then have "- (int n + 1) < 2 * k" by (simp only: of_int_less_iff)
  then have k_lo: "- int n \<le> 2 * k" by simp
  have "\<bar>real_of_int k\<bar> \<le> real n / 2"
  proof -
    have "\<bar>2 * k\<bar> \<le> int n" using k_up k_lo by simp
    then have "real_of_int \<bar>2 * k\<bar> \<le> real_of_int (int n)" by (simp only: of_int_le_iff)
    then show ?thesis by simp
  qed
  then have "\<bar>real_of_int r - 100 * x\<bar> * real n \<le> (1 / 2) * real n"
    unfolding kx using rn(1) by (simp add: abs_mult)
  then have "\<bar>real_of_int r - 100 * x\<bar> \<le> 1 / 2"
    using rn(1) by (simp only: mult_le_cancel_right_pos)
  then show ?thesis
    by (simp add: r_def b_def y_def a_def x_def)
qed

lemma getStats_counts_partition:
  "length (filter (\<lambda>d. status d = Taken) doses)
   + length (filter (\<lambda>d. status d = Missed) doses)
   + length (filter (\<lambda>d. status d = Pending) doses)
   + length (filter (\<lambda>d. status d = Skipped) doses) = length doses"
proof (induction doses)
  case Nil
  then show ?case by simp
next
  case (Cons d doses)
  then show ?case by (cases "status d") simp_all
qed

lemma history_onTime_eq:
  "onTime (history_getStats z hist)
     = length (filter (\<lambda>e. \<bar>actual_taken_datetime e - newDate z (scheduled_date e) (scheduled_time e)\<bar>
                              \<le> 900000) hist)"
proof -
  have eq: "(\<lambda>e. \<bar>real_of_int (actual_taken_datetime e - newDate z (scheduled_date e) (scheduled_time e))
                   / (1000 * 60)\<bar> \<le> 15)
          = (\<lambda>e. \<bar>actual_taken_datetime e - newDate z (scheduled_date e) (scheduled_time e)\<bar> \<le> 900000)"
  proof (rule ext)
    fix e
    show "(\<bar>real_of_int (actual_taken_datetime e - newDate z (scheduled_date e) (scheduled_time e))
              / (1000 * 60)\<bar> \<le> 15)
          = (\<bar>actual_taken_datetime e - newDate z (scheduled_date e) (scheduled_time e)\<bar> \<le> 900000)"
      using abs_minutes_le [of "actual_taken_datetime e - newDate z (scheduled_date e) (scheduled_time e)" 15]
      by simp
  qed
  show ?thesis
    by (simp only: history_getStats_def Let_def getTime_def eq HistoryStats.select_convs)
qed

lemma onTime_le_total: "onTime (history_getStats z hist) \<le> length hist"
  by (simp add: history_getStats_def)

lemma dosesInRange_step:
  "date \<le> end \<Longrightarrow>
   dosesInRange z now logs history doseSchedules prescriptions date end
     = concat (map (dosesOfPrescription z now logs history doseSchedules date) prescriptions)
       @ dosesInRange z now logs history doseSchedules prescriptions (addDays z date 1) end"
  by (subst dosesInRange.simps) simp

lemma dosesInRange_done:
  "end < date \<Longrightarrow> dosesInRange z now logs history doseSchedules prescriptions date end = []"
  by (subst dosesInRange.simps) simp

lemma ex_one_day_range:
  "generateScheduledDoses fixedZone ex_now [ex_presA] [ex_daily] logs history
       (Some (localDate 2024 1 10)) (Some (localDate 2024 1 10)) ''all'' None Asc
     = Some [reconcile ex_now logs history [ex_daily] ex_presA ex_day ex_inst]"
proof -
  have start: "newDate fixedZone (localDate 2024 1 10) \<lparr>hh = 0, mm = 0, ss = 0\<rparr> = ex_day"
    by (simp add: ex_day_def ex_at_def)
  have le: "ex_day \<le> newDate fixedZone (localDate 2024 1 10) \<lparr>hh = 23, mm = 59, ss = 59\<rparr>"
    by (simp add: ex_day_def ex_at_def newDate_def)
  have gt: "newDate fixedZone (localDate 2024 1 10) \<lparr>hh = 23, mm = 59, ss = 59\<rparr>
              < addDays fixedZone ex_day 1"
    by (simp add: ex_day_def ex_at_def newDate_def addDays_def)
  have own: "ds_prescription_id ex_daily = p_id ex_presA"
    by (simp add: ex_daily_def ex_rule_def ex_presA_def)
  have day: "dosesOfPrescription fixedZone ex_now logs history [ex_daily] ex_day ex_presA
               = [reconcile ex_now logs history [ex_daily] ex_presA ex_day ex_inst]"
    by (simp add: dosesOfPrescription_def own ex_inst_generated Let_def)
  have range: "dosesInRange fixedZone ex_now logs history [ex_daily] [ex_presA] ex_day
                 (newDate fixedZone (localDate 2024 1 10) \<lparr>hh = 23, mm = 59, ss = 59\<rparr>)
               = [reconcile ex_now logs history [ex_daily] ex_presA ex_day ex_inst]"
    by (simp only: dosesInRange_step [OF le] dosesInRange_done [OF gt] day
        list.map concat.simps append_Nil2)
  show ?thesis
    by (simp add: generateScheduledDoses_def start range Let_def)
qed

section \<open>The claims\<close>

subsection \<open>C1: History match and precedence\<close>

text \<open>
  C1 (as stated: for every snapshot, the dose is taken and linked to a History Event if
  and only if some History Event has the instant's scheduled date and time of day). The
  History Events the code searches are all of the user's, of every prescription, and the
  match also requires the event's \<^verbatim>\<open>prescription_id\<close> to be the instant's. A History
  Event of prescription B scheduled on 2024-01-10 at 08:00:00 has the date and the time of
  day of prescription A's instant, and A's dose stays pending with no event linked.
\<close>

theorem C1_other_prescription_counterexample:
  "generateScheduledTimes fixedZone [ex_daily] ex_day = [ex_inst]
   \<and> scheduled_date (ex_hist ''h9'' ''B'' (localDate 2024 1 10) 8 0 0 (ex_at 2024 1 10 8 2 0))
       = format_yyyyMMdd ex_inst
   \<and> scheduled_time (ex_hist ''h9'' ''B'' (localDate 2024 1 10) 8 0 0 (ex_at 2024 1 10 8 2 0))
       = format_HHmmss ex_inst
   \<and> status (reconcile ex_now []
         [ex_hist ''h9'' ''B'' (localDate 2024 1 10) 8 0 0 (ex_at 2024 1 10 8 2 0)]
         [ex_daily] ex_presA ex_day ex_inst) = Pending
   \<and> historyEntry (reconcile ex_now []
         [ex_hist ''h9'' ''B'' (localDate 2024 1 10) 8 0 0 (ex_at 2024 1 10 8 2 0)]
         [ex_daily] ex_presA ex_day ex_inst) = None"
  by (simp add: ex_inst_generated ex_inst_format reconcile_status reconcile_historyEntry
      historyMatch_def ex_hist_def ex_presA_def)

text \<open>
  C1 (amended). For every Dose Instant the expander produces for a date (rules with hour
  below 24 and minute below 60) and every snapshot of Log Events and History Events, the
  reconciliation returns status taken and links a History Event if and only if some
  History Event of the instant's prescription has a recorded scheduled date equal to the
  instant's calendar date and a recorded scheduled time of day equal to the instant's
  time of day (the scheduled fields, not the actual-taken timestamp); the linked event is
  such an event, and it decides the status whatever the Log Events are.
\<close>

theorem C1_history_match_of_prescription_decides_taken:
  assumes "scheduledTime \<in> set (generateScheduledTimes z prescriptionSchedules date)"
    and "\<forall>r \<in> set prescriptionSchedules. hh (dose_time r) < 24 \<and> mm (dose_time r) < 60"
  shows
    "((status (reconcile now logs history prescriptionSchedules prescription date scheduledTime) = Taken
       \<and> historyEntry (reconcile now logs history prescriptionSchedules prescription date scheduledTime) \<noteq> None)
      = (\<exists>h \<in> set history.
           h_prescription_id h = p_id prescription
           \<and> scheduled_date h = format_yyyyMMdd scheduledTime
           \<and> scheduled_time h = format_HHmmss scheduledTime))
     \<and> (\<forall>h. historyEntry (reconcile now logs history prescriptionSchedules prescription date scheduledTime) = Some h
            \<longrightarrow> h \<in> set history
                \<and> h_prescription_id h = p_id prescription
                \<and> scheduled_date h = format_yyyyMMdd scheduledTime
                \<and> scheduled_time h = format_HHmmss scheduledTime
                \<and> status (reconcile now logs history prescriptionSchedules prescription date scheduledTime) = Taken)"
proof -
  let ?P = "historyMatch prescription date scheduledTime"
  have day: "format_yyyyMMdd scheduledTime = format_yyyyMMdd date"
    using assms by (rule generated_same_day)
  have P: "?P h = (h_prescription_id h = p_id prescription
                   \<and> scheduled_date h = format_yyyyMMdd scheduledTime
                   \<and> scheduled_time h = format_HHmmss scheduledTime)" for h
    by (simp add: historyMatch_def day)
  show ?thesis
  proof (cases "find ?P history")
    case None
    then have "\<not> (\<exists>h \<in> set history. ?P h)" by (simp add: find_None_iff)
    with None show ?thesis
      by (simp add: reconcile_historyEntry reconcile_status P)
  next
    case (Some h)
    then have "h \<in> set history" "?P h"
      by (auto simp add: find_Some_iff)
    with Some show ?thesis
      by (auto simp add: reconcile_historyEntry reconcile_status P)
  qed
qed

theorem C1_history_beats_log_witness:
  "ex_inst \<in> set (generateScheduledTimes fixedZone [ex_daily] ex_day)
   \<and> status (reconcile ex_now
         [ex_log ''l1'' ''A'' (ex_at 2024 1 10 8 0 30) Missed]
         [ex_hist ''h1'' ''A'' (localDate 2024 1 10) 8 0 0 (ex_at 2024 1 10 9 45 0)]
         [ex_daily] ex_presA ex_day ex_inst) = Taken
   \<and> historyEntry (reconcile ex_now
         [ex_log ''l1'' ''A'' (ex_at 2024 1 10 8 0 30) Missed]
         [ex_hist ''h1'' ''A'' (localDate 2024 1 10) 8 0 0 (ex_at 2024 1 10 9 45 0)]
         [ex_daily] ex_presA ex_day ex_inst)
       = Some (ex_hist ''h1'' ''A'' (localDate 2024 1 10) 8 0 0 (ex_at 2024 1 10 9 45 0))"
proof -
  have gen: "ex_inst \<in> set (generateScheduledTimes fixedZone [ex_daily] ex_day)"
    by (simp add: ex_inst_generated)
  have wf: "\<forall>r \<in> set [ex_daily]. hh (dose_time r) < 24 \<and> mm (dose_time r) < 60"
    by (simp add: ex_daily_def ex_rule_def)
  have entry: "historyEntry (reconcile ex_now
         [ex_log ''l1'' ''A'' (ex_at 2024 1 10 8 0 30) Missed]
         [ex_hist ''h1'' ''A'' (localDate 2024 1 10) 8 0 0 (ex_at 2024 1 10 9 45 0)]
         [ex_daily] ex_presA ex_day ex_inst)
       = Some (ex_hist ''h1'' ''A'' (localDate 2024 1 10) 8 0 0 (ex_at 2024 1 10 9 45 0))"
    by (simp add: reconcile_historyEntry historyMatch_def ex_inst_format ex_hist_def ex_presA_def)
  show ?thesis
    using C1_history_match_of_prescription_decides_taken [OF gen wf, of ex_now
            "[ex_log ''l1'' ''A'' (ex_at 2024 1 10 8 0 30) Missed]"
            "[ex_hist ''h1'' ''A'' (localDate 2024 1 10) 8 0 0 (ex_at 2024 1 10 9 45 0)]"
            ex_presA]
          gen entry
    by simp
qed

subsection \<open>C2: Log match and the pending default\<close>

text \<open>
  C2 (as stated: a Log Event whose stored scheduled timestamp is within 60 seconds of the
  instant's timestamp gives its status). The code's test is
  \<^verbatim>\<open>Math.abs(logTime.getTime() - scheduledTime.getTime()) < 60000\<close>, strict. A Log Event
  stamped 08:01:00, exactly 60 seconds after the instant of 08:00:00 (the log of a dose
  scheduled one minute later), is within 60 seconds of it and does not match: with no
  History Event, the dose of 08:00:00 is pending although the log says taken.
\<close>

theorem C2_exactly_sixty_seconds_counterexample:
  "generateScheduledTimes fixedZone [ex_daily] ex_day = [ex_inst]
   \<and> \<bar>l_scheduled_time (ex_log ''l3'' ''A'' (ex_at 2024 1 10 8 1 0) Taken) - ex_inst\<bar> = 60 * 1000
   \<and> l_status (ex_log ''l3'' ''A'' (ex_at 2024 1 10 8 1 0) Taken) = Taken
   \<and> status (reconcile ex_now [ex_log ''l3'' ''A'' (ex_at 2024 1 10 8 1 0) Taken] []
               [ex_daily] ex_presA ex_day ex_inst) = Pending
   \<and> sd_log (reconcile ex_now [ex_log ''l3'' ''A'' (ex_at 2024 1 10 8 1 0) Taken] []
               [ex_daily] ex_presA ex_day ex_inst) = None
   \<and> map td_status (getTodaysDoses fixedZone [ex_daily]
                        [ex_log ''l3'' ''A'' (ex_at 2024 1 10 8 1 0) Taken] (ex_at 2024 1 10 7 15 0))
       = [Pending]"
proof -
  have dist: "\<bar>l_scheduled_time (ex_log ''l3'' ''A'' (ex_at 2024 1 10 8 1 0) Taken) - ex_inst\<bar> = 60 * 1000"
    by (simp add: ex_log_def ex_inst_def ex_at_def newDate_def)
  have times: "generateScheduledTimes fixedZone [ex_daily] (ex_at 2024 1 10 7 15 0) = [ex_inst]"
    by (simp add: generateScheduledTimes_def scheduleTime_def setHours_def localTime_def
        dayOfWeek_def getDay_def ex_daily_def ex_inst_def ex_at_def newDate_def localDate_def
        ex_rule_def)
  have nomatch: "\<not> logMatch ex_inst (ex_log ''l3'' ''A'' (ex_at 2024 1 10 8 1 0) Taken)"
    using dist by (simp add: logMatch_iff)
  show ?thesis
    using dist nomatch
    by (simp add: ex_inst_generated reconcile_status reconcile_log getTodaysDoses_def times Let_def)
       (simp add: ex_log_def)
qed

text \<open>
  C2 (amended). For every Dose Instant with no matching History Event: if some Log
  Event's stored scheduled timestamp is less than 60 seconds (60000 ms) from the
  instant's timestamp, the reconciliation returns the stored status of such a Log Event,
  namely of the first one in the collection; if none is less than 60 seconds away (one
  exactly 60 seconds or one 5 minutes away) the status is pending, whatever the
  current time is, so a past instant is never turned into missed. The same holds for the
  doses of \<^verbatim>\<open>getTodaysDoses\<close>.
\<close>

theorem C2_log_within_tolerance_else_pending:
  assumes "\<not> (\<exists>h \<in> set history.
                h_prescription_id h = p_id prescription
                \<and> scheduled_date h = format_yyyyMMdd date
                \<and> scheduled_time h = format_HHmmss scheduledTime)"
  shows
    "((\<exists>l \<in> set logs. \<bar>l_scheduled_time l - scheduledTime\<bar> < 60000) \<longrightarrow>
        (\<exists>l \<in> set logs. \<bar>l_scheduled_time l - scheduledTime\<bar> < 60000
           \<and> sd_log (reconcile now logs history schedules prescription date scheduledTime) = Some l
           \<and> status (reconcile now logs history schedules prescription date scheduledTime) = l_status l))
     \<and> (\<not> (\<exists>l \<in> set logs. \<bar>l_scheduled_time l - scheduledTime\<bar> < 60000) \<longrightarrow>
          status (reconcile now logs history schedules prescription date scheduledTime) = Pending
          \<and> sd_log (reconcile now logs history schedules prescription date scheduledTime) = None)
     \<and> status (reconcile now logs history schedules prescription date scheduledTime)
         = (case find (\<lambda>l. \<bar>l_scheduled_time l - scheduledTime\<bar> < 60000) logs of
              Some l \<Rightarrow> l_status l
            | None \<Rightarrow> Pending)
     \<and> (\<forall>td \<in> set (getTodaysDoses z doseSchedules logs today).
          td_status td
            = (case find (\<lambda>l. \<bar>l_scheduled_time l - td_time td\<bar> < 60000) logs of
                 Some l \<Rightarrow> l_status l
               | None \<Rightarrow> Pending))"
proof -
  let ?d = "reconcile now logs history schedules prescription date scheduledTime"
  let ?Q = "\<lambda>l. \<bar>l_scheduled_time l - scheduledTime\<bar> < 60000"
  from assms have nohist: "find (historyMatch prescription date scheduledTime) history = None"
    by (simp add: find_None_iff historyMatch_def)
  have st: "status ?d = (case find ?Q logs of Some l \<Rightarrow> l_status l | None \<Rightarrow> Pending)"
    by (simp add: reconcile_status nohist logMatch_fun)
  have lg: "sd_log ?d = find ?Q logs"
    by (simp add: reconcile_log nohist logMatch_fun)
  have some: "\<exists>l \<in> set logs. ?Q l \<and> sd_log ?d = Some l \<and> status ?d = l_status l"
    if "\<exists>l \<in> set logs. ?Q l"
  proof (cases "find ?Q logs")
    case None
    with that show ?thesis by (simp add: find_None_iff)
  next
    case (Some l)
    then have "l \<in> set logs" "?Q l" by (auto simp add: find_Some_iff)
    with Some show ?thesis by (auto simp add: st lg)
  qed
  have none: "status ?d = Pending \<and> sd_log ?d = None" if "\<not> (\<exists>l \<in> set logs. ?Q l)"
  proof -
    from that have "find ?Q logs = None" by (simp add: find_None_iff)
    then show ?thesis by (simp add: st lg)
  qed
  have today: "\<forall>td \<in> set (getTodaysDoses z doseSchedules logs today).
          td_status td
            = (case find (\<lambda>l. \<bar>l_scheduled_time l - td_time td\<bar> < 60000) logs of
                 Some l \<Rightarrow> l_status l
               | None \<Rightarrow> Pending)"
    by (auto simp add: getTodaysDoses_def Let_def logMatch_fun)
  from some none st today show ?thesis by blast
qed

theorem C2_thirty_seconds_and_five_minutes_witness:
  "status (reconcile ex_now [ex_log ''l1'' ''A'' (ex_at 2024 1 10 8 0 30) Missed] []
             [ex_daily] ex_presA ex_day ex_inst) = Missed
   \<and> status (reconcile ex_now [ex_log ''l2'' ''A'' (ex_at 2024 1 10 8 5 0) Missed] []
             [ex_daily] ex_presA ex_day ex_inst) = Pending
   \<and> ex_inst < ex_now
   \<and> map td_status (getTodaysDoses fixedZone [ex_daily] [ex_log ''l1'' ''A'' (ex_at 2024 1 10 8 0 30) Missed]
                      (ex_at 2024 1 10 7 15 0)) = [Missed]"
proof -
  have near: "\<bar>l_scheduled_time (ex_log ''l1'' ''A'' (ex_at 2024 1 10 8 0 30) Missed) - ex_inst\<bar> < 60000"
    by (simp add: ex_log_def ex_inst_def ex_at_def newDate_def)
  have far: "\<not> \<bar>l_scheduled_time (ex_log ''l2'' ''A'' (ex_at 2024 1 10 8 5 0) Missed) - ex_inst\<bar> < 60000"
    by (simp add: ex_log_def ex_inst_def ex_at_def newDate_def)
  have past: "ex_inst < ex_now"
    by (simp add: ex_inst_def ex_now_def ex_at_def newDate_def localDate_def)
  have times: "generateScheduledTimes fixedZone [ex_daily] (ex_at 2024 1 10 7 15 0) = [ex_inst]"
    by (simp add: generateScheduledTimes_def scheduleTime_def setHours_def localTime_def dayOfWeek_def getDay_def
        ex_daily_def ex_inst_def ex_at_def newDate_def localDate_def ex_rule_def)
  have doses: "map td_time (getTodaysDoses fixedZone [ex_daily] [ex_log ''l1'' ''A'' (ex_at 2024 1 10 8 0 30) Missed]
                      (ex_at 2024 1 10 7 15 0)) = [ex_inst]"
    by (simp add: getTodaysDoses_def times Let_def)
  show ?thesis
    using C2_log_within_tolerance_else_pending
            [of "[]" ex_presA ex_day ex_inst
                "[ex_log ''l1'' ''A'' (ex_at 2024 1 10 8 0 30) Missed]" ex_now "[ex_daily]"
                fixedZone "[ex_daily]" "ex_at 2024 1 10 7 15 0"]
          C2_log_within_tolerance_else_pending
            [of "[]" ex_presA ex_day ex_inst
                "[ex_log ''l2'' ''A'' (ex_at 2024 1 10 8 5 0) Missed]" ex_now "[ex_daily]"
                fixedZone "[]" ex_day]
          near far past doses
    by (simp add: getTodaysDoses_def times Let_def) (simp add: ex_log_def)
qed

subsection \<open>C3: Which rules contribute\<close>

text \<open>
  C3. For every list of rules and every target date, the expander produces one instant
  per rule that is active and whose weekday list contains the date's weekday, the native
  weekday (0 = Sunday) being remapped to 1 = Monday .. 7 = Sunday; no other rule
  contributes. In particular a rule whose weekday list contains 7 yields an instant on a
  calendar Sunday.
\<close>

theorem C3_rule_contributes_iff_active_and_weekday:
  "mset (generateScheduledTimes z schedules date) =
     image_mset (scheduleTime z date)
       (filter_mset (\<lambda>r. ds_is_active r \<and> dayOfWeek date \<in> set (days_of_week r)) (mset schedules))
   \<and> 1 \<le> dayOfWeek date \<and> dayOfWeek date \<le> 7
   \<and> dayOfWeek date mod 7 = getDay date
   \<and> (dayOfWeek date = 7) = (getDay date = 0)
   \<and> (getDay date = 0 \<and> s \<in> set schedules \<and> ds_is_active s \<and> 7 \<in> set (days_of_week s)
        \<longrightarrow> scheduleTime z date s \<in> set (generateScheduledTimes z schedules date))"
proof -
  have remap: "dayOfWeek date mod 7 = getDay date"
    using getDay_range [of date] by (simp add: dayOfWeek_def)
  have sunday: "scheduleTime z date s \<in> set (generateScheduledTimes z schedules date)"
    if "getDay date = 0" "s \<in> set schedules" "ds_is_active s" "7 \<in> set (days_of_week s)"
  proof -
    from that(1) have "dayOfWeek date = 7" by (simp add: dayOfWeek_def)
    with that(2-4) show ?thesis
      by (auto simp add: set_generateScheduledTimes)
  qed
  show ?thesis
    using mset_generateScheduledTimes dayOfWeek_range dayOfWeek_sunday remap sunday
    by blast
qed

theorem C3_sunday_witness:
  "getDay (ex_at 2024 1 7 0 0 0) = 0
   \<and> dayOfWeek (ex_at 2024 1 7 0 0 0) = 7
   \<and> ex_at 2024 1 7 8 0 0 \<in> set (generateScheduledTimes fixedZone [ex_rule 8 0 0 [7]] (ex_at 2024 1 7 0 0 0))
   \<and> generateScheduledTimes fixedZone [ex_rule 8 0 0 [6]] (ex_at 2024 1 7 0 0 0) = []"
proof -
  have day: "getDay (ex_at 2024 1 7 0 0 0) = 0"
    by (simp add: ex_dates getDay_def)
  have inst: "scheduleTime fixedZone (ex_at 2024 1 7 0 0 0) (ex_rule 8 0 0 [7]) = ex_at 2024 1 7 8 0 0"
    by (simp add: ex_at_def newDate_def localDate_def scheduleTime_def setHours_def localTime_def ex_rule_def)
  have none: "generateScheduledTimes fixedZone [ex_rule 8 0 0 [6]] (ex_at 2024 1 7 0 0 0) = []"
    by (simp add: generateScheduledTimes_def dayOfWeek_def day ex_rule_def)
  show ?thesis
    using C3_rule_contributes_iff_active_and_weekday
            [of fixedZone "[ex_rule 8 0 0 [7]]" "ex_at 2024 1 7 0 0 0" "ex_rule 8 0 0 [7]"]
          day inst none
    by (simp add: ex_rule_def)
qed

subsection \<open>C4: The time of the instant\<close>

text \<open>
  C4 (as stated: hours, minutes and seconds of the instant equal the rule's). The
  expander reads only the hour and the minute of \<^verbatim>\<open>dose_time\<close> and sets seconds and
  milliseconds to zero, so a rule at 08:30:45 on a Wednesday yields the instant 08:30:00 of
  that day: its seconds differ from the rule's.
\<close>

theorem C4_seconds_counterexample:
  "generateScheduledTimes fixedZone [ex_rule 8 30 45 [1, 2, 3, 4, 5, 6, 7]] (ex_at 2024 1 10 0 0 0)
     = [ex_at 2024 1 10 8 30 0]
   \<and> getSeconds (ex_at 2024 1 10 8 30 0) = 0
   \<and> ss (dose_time (ex_rule 8 30 45 [1, 2, 3, 4, 5, 6, 7])) = 45
   \<and> format_HHmmss (ex_at 2024 1 10 8 30 0) \<noteq> dose_time (ex_rule 8 30 45 [1, 2, 3, 4, 5, 6, 7])"
  by (simp add: generateScheduledTimes_def scheduleTime_def setHours_def localTime_def dayOfWeek_def getDay_def
      getSeconds_def getHours_def getMinutes_def format_HHmmss_def getTime_def
      ex_at_def newDate_def localDate_def ex_rule_def)

text \<open>
  C4 (amended). For every active rule matching the target date whose time of day has
  hour below 24 and minute below 60, the expander produces an instant on the target
  date. If the rule's hour and minute exist as a wall-clock time on that date in the
  user's zone (they are not skipped by a daylight-saving transition), the instant's local
  hour and minute are the rule's and its seconds and milliseconds are zero, with no zone
  conversion; so the instant's time of day then equals the rule's exactly when the rule's
  seconds are zero. A skipped time is moved forward within the day.
\<close>

theorem C4_instant_is_rule_hour_minute_on_date:
  assumes "s \<in> set schedules" and "ds_is_active s"
    and "dayOfWeek date \<in> set (days_of_week s)"
    and "hh (dose_time s) < 24" and "mm (dose_time s) < 60"
  shows "scheduleTime z date s \<in> set (generateScheduledTimes z schedules date)
    \<and> format_yyyyMMdd (scheduleTime z date s) = format_yyyyMMdd date
    \<and> localTime date (int (hh (dose_time s))) (int (mm (dose_time s))) 0 0 \<le> scheduleTime z date s
    \<and> (resolve z (localTime date (int (hh (dose_time s))) (int (mm (dose_time s))) 0 0)
          = localTime date (int (hh (dose_time s))) (int (mm (dose_time s))) 0 0
        \<longrightarrow> getHours (scheduleTime z date s) = int (hh (dose_time s))
          \<and> getMinutes (scheduleTime z date s) = int (mm (dose_time s))
          \<and> getSeconds (scheduleTime z date s) = 0
          \<and> getMilliseconds (scheduleTime z date s) = 0
          \<and> (format_HHmmss (scheduleTime z date s) = dose_time s) = (ss (dose_time s) = 0))"
proof -
  have mem: "scheduleTime z date s \<in> set (generateScheduledTimes z schedules date)"
    unfolding set_generateScheduledTimes using assms(1-3) by blast
  have day: "format_yyyyMMdd (scheduleTime z date s) = format_yyyyMMdd date"
    using assms(4,5) by (rule scheduleTime_day)
  have fwd: "localTime date (int (hh (dose_time s))) (int (mm (dose_time s))) 0 0
               \<le> scheduleTime z date s"
    by (simp add: scheduleTime_eq resolve_ge)
  have exact: "getHours (scheduleTime z date s) = int (hh (dose_time s))
          \<and> getMinutes (scheduleTime z date s) = int (mm (dose_time s))
          \<and> getSeconds (scheduleTime z date s) = 0
          \<and> getMilliseconds (scheduleTime z date s) = 0
          \<and> (format_HHmmss (scheduleTime z date s) = dose_time s) = (ss (dose_time s) = 0)"
    if ex: "resolve z (localTime date (int (hh (dose_time s))) (int (mm (dose_time s))) 0 0)
              = localTime date (int (hh (dose_time s))) (int (mm (dose_time s))) 0 0"
  proof -
    note parts = scheduleTime_parts [OF assms(4,5) ex]
    have "format_HHmmss (scheduleTime z date s)
            = \<lparr>hh = hh (dose_time s), mm = mm (dose_time s), ss = 0\<rparr>"
      by (simp add: format_HHmmss_def parts)
    then have "(format_HHmmss (scheduleTime z date s) = dose_time s) = (ss (dose_time s) = 0)"
      by (cases "dose_time s") auto
    with parts show ?thesis by simp
  qed
  from mem day fwd exact show ?thesis by blast
qed

theorem C4_instant_witness:
  "getHours (scheduleTime fixedZone (ex_at 2024 1 10 0 0 0) (ex_rule 8 30 45 [3])) = 8
   \<and> getMinutes (scheduleTime fixedZone (ex_at 2024 1 10 0 0 0) (ex_rule 8 30 45 [3])) = 30
   \<and> getSeconds (scheduleTime fixedZone (ex_at 2024 1 10 0 0 0) (ex_rule 8 30 45 [3])) = 0
   \<and> format_HHmmss (scheduleTime fixedZone (ex_at 2024 1 10 0 0 0) (ex_rule 8 30 0 [3])) = dose_time (ex_rule 8 30 0 [3])
   \<and> getHours (scheduleTime newYorkMarch2024 (ex_at 2024 3 10 0 0 0) (ex_rule 8 30 0 [7])) = 8
   \<and> getMinutes (scheduleTime newYorkMarch2024 (ex_at 2024 3 10 0 0 0) (ex_rule 8 30 0 [7])) = 30"
proof -
  have day: "dayOfWeek (ex_at 2024 1 10 0 0 0) = 3"
    by (simp add: ex_dates dayOfWeek_def getDay_def)
  have sunday: "dayOfWeek (ex_at 2024 3 10 0 0 0) = 7"
    by (simp add: dayOfWeek_def getDay_def ex_at_def newDate_def localDate_def)
  have later: "resolve newYorkMarch2024 (localTime (ex_at 2024 3 10 0 0 0) 8 30 0 0)
                 = localTime (ex_at 2024 3 10 0 0 0) 8 30 0 0"
    by (simp add: resolve_newYorkMarch2024 localTime_def ex_at_def newDate_def localDate_def)
  show ?thesis
    using C4_instant_is_rule_hour_minute_on_date
            [where s = "ex_rule 8 30 45 [3]" and schedules = "[ex_rule 8 30 45 [3]]"
               and date = "ex_at 2024 1 10 0 0 0" and z = fixedZone]
          C4_instant_is_rule_hour_minute_on_date
            [where s = "ex_rule 8 30 0 [3]" and schedules = "[ex_rule 8 30 0 [3]]"
               and date = "ex_at 2024 1 10 0 0 0" and z = fixedZone]
          C4_instant_is_rule_hour_minute_on_date
            [where s = "ex_rule 8 30 0 [7]" and schedules = "[ex_rule 8 30 0 [7]]"
               and date = "ex_at 2024 3 10 0 0 0" and z = newYorkMarch2024]
          day sunday later
    by (simp add: ex_rule_def)
qed

subsection \<open>C5: Several matching History Events\<close>

text \<open>
  C5 (as stated: several matching History Events are reported to the caller as a
  warning). A reconciled dose holds one optional History Event and nothing else about the
  history; with two distinct History Events matching the instant, the result links the
  first and is the very result obtained when the second does not exist, so nothing of the
  second match reaches the caller.
\<close>

theorem C5_second_match_unreported_counterexample:
  "historyMatch ex_presA ex_day ex_inst
     (ex_hist ''h1'' ''A'' (localDate 2024 1 10) 8 0 0 (ex_at 2024 1 10 8 2 0))
   \<and> historyMatch ex_presA ex_day ex_inst
       (ex_hist ''h2'' ''A'' (localDate 2024 1 10) 8 0 0 (ex_at 2024 1 10 8 40 0))
   \<and> ex_hist ''h1'' ''A'' (localDate 2024 1 10) 8 0 0 (ex_at 2024 1 10 8 2 0)
       \<noteq> ex_hist ''h2'' ''A'' (localDate 2024 1 10) 8 0 0 (ex_at 2024 1 10 8 40 0)
   \<and> historyEntry (reconcile ex_now []
         [ex_hist ''h1'' ''A'' (localDate 2024 1 10) 8 0 0 (ex_at 2024 1 10 8 2 0),
          ex_hist ''h2'' ''A'' (localDate 2024 1 10) 8 0 0 (ex_at 2024 1 10 8 40 0)]
         [ex_daily] ex_presA ex_day ex_inst)
       = Some (ex_hist ''h1'' ''A'' (localDate 2024 1 10) 8 0 0 (ex_at 2024 1 10 8 2 0))
   \<and> reconcile ex_now []
         [ex_hist ''h1'' ''A'' (localDate 2024 1 10) 8 0 0 (ex_at 2024 1 10 8 2 0),
          ex_hist ''h2'' ''A'' (localDate 2024 1 10) 8 0 0 (ex_at 2024 1 10 8 40 0)]
         [ex_daily] ex_presA ex_day ex_inst
       = reconcile ex_now []
         [ex_hist ''h1'' ''A'' (localDate 2024 1 10) 8 0 0 (ex_at 2024 1 10 8 2 0)]
         [ex_daily] ex_presA ex_day ex_inst"
proof -
  have m1: "historyMatch ex_presA ex_day ex_inst
     (ex_hist ''h1'' ''A'' (localDate 2024 1 10) 8 0 0 (ex_at 2024 1 10 8 2 0))"
    by (simp add: historyMatch_def ex_inst_format ex_hist_def ex_presA_def)
  have m2: "historyMatch ex_presA ex_day ex_inst
       (ex_hist ''h2'' ''A'' (localDate 2024 1 10) 8 0 0 (ex_at 2024 1 10 8 40 0))"
    by (simp add: historyMatch_def ex_inst_format ex_hist_def ex_presA_def)
  have ne: "ex_hist ''h1'' ''A'' (localDate 2024 1 10) 8 0 0 (ex_at 2024 1 10 8 2 0)
       \<noteq> ex_hist ''h2'' ''A'' (localDate 2024 1 10) 8 0 0 (ex_at 2024 1 10 8 40 0)"
    by (simp add: ex_hist_def)
  from m1 m2 ne show ?thesis
    by (simp add: reconcile_historyEntry reconcile_cong_history)
qed

text \<open>
  C5 (amended). When several History Events match the same Dose Instant (same
  prescription, same recorded scheduled date and time of day), the reconciliation links
  the first of them in the order of the supplied collection, with status taken; the
  events after it do not change the result, and no warning is produced.
\<close>

theorem C5_first_matching_history_is_linked:
  assumes "\<forall>x \<in> set pre. \<not> historyMatch prescription date scheduledTime x"
    and "historyMatch prescription date scheduledTime h"
  shows
    "historyEntry (reconcile now logs (pre @ h # post) schedules prescription date scheduledTime) = Some h
     \<and> status (reconcile now logs (pre @ h # post) schedules prescription date scheduledTime) = Taken
     \<and> reconcile now logs (pre @ h # post) schedules prescription date scheduledTime
         = reconcile now logs (pre @ [h]) schedules prescription date scheduledTime"
proof -
  let ?P = "historyMatch prescription date scheduledTime"
  have a: "find ?P (pre @ h # post) = Some h"
    using assms by (rule find_first_match)
  have b: "find ?P (pre @ [h]) = Some h"
    using assms by (rule find_first_match)
  show ?thesis
    by (simp add: reconcile_historyEntry reconcile_status a
        reconcile_cong_history [of prescription date scheduledTime "pre @ h # post" "pre @ [h]"] b)
qed

theorem C5_first_matching_history_witness:
  "historyEntry (reconcile ex_now []
       ([ex_hist ''h0'' ''B'' (localDate 2024 1 10) 8 0 0 (ex_at 2024 1 10 8 1 0)]
        @ ex_hist ''h1'' ''A'' (localDate 2024 1 10) 8 0 0 (ex_at 2024 1 10 8 2 0)
        # [ex_hist ''h2'' ''A'' (localDate 2024 1 10) 8 0 0 (ex_at 2024 1 10 8 40 0)])
       [ex_daily] ex_presA ex_day ex_inst)
     = Some (ex_hist ''h1'' ''A'' (localDate 2024 1 10) 8 0 0 (ex_at 2024 1 10 8 2 0))
   \<and> status (reconcile ex_now []
       ([ex_hist ''h0'' ''B'' (localDate 2024 1 10) 8 0 0 (ex_at 2024 1 10 8 1 0)]
        @ ex_hist ''h1'' ''A'' (localDate 2024 1 10) 8 0 0 (ex_at 2024 1 10 8 2 0)
        # [ex_hist ''h2'' ''A'' (localDate 2024 1 10) 8 0 0 (ex_at 2024 1 10 8 40 0)])
       [ex_daily] ex_presA ex_day ex_inst) = Taken"
proof -
  have pre: "\<forall>x \<in> set [ex_hist ''h0'' ''B'' (localDate 2024 1 10) 8 0 0 (ex_at 2024 1 10 8 1 0)].
               \<not> historyMatch ex_presA ex_day ex_inst x"
    by (simp add: historyMatch_def ex_hist_def ex_presA_def)
  have m1: "historyMatch ex_presA ex_day ex_inst
     (ex_hist ''h1'' ''A'' (localDate 2024 1 10) 8 0 0 (ex_at 2024 1 10 8 2 0))"
    by (simp add: historyMatch_def ex_inst_format ex_hist_def ex_presA_def)
  show ?thesis
    using C5_first_matching_history_is_linked [OF pre m1, of ex_now "[]"
            "[ex_hist ''h2'' ''A'' (localDate 2024 1 10) 8 0 0 (ex_at 2024 1 10 8 40 0)]"
            "[ex_daily]"]
    by blast
qed

subsection \<open>C6: Timing buckets\<close>

text \<open>
  C6. The claim: the timing classification computes
  \<open>offsetMinutes = round((actual - scheduled) / 60 s)\<close> and buckets it:
  \<open>|offsetMinutes| \<le> 15\<close> on-time (green), \<open>15 < |offsetMinutes| \<le> 60\<close> moderate
  (yellow), above 60 large (red). The history modal does so
  (\<open>history_color_buckets_rounded_offset\<close>). The daily modal, which shows the reconciled
  doses, labels by the rounded offset and colours by the exact one: a dose scheduled at
  08:00:00 and taken at 08:15:20 has \<open>offsetMinutes = 15\<close>, is labelled "15 min late", and
  is coloured yellow there, green in the history modal.
\<close>

theorem C6_daily_bucket_of_unrounded_offset:
  "diffMinutes ex_inst (ex_at 2024 1 10 8 15 20) = 15
   \<and> daily_getTimeDifference ex_inst (ex_at 2024 1 10 8 15 20) = ''15 min late''
   \<and> daily_getTimeDifferenceColor ex_inst (ex_at 2024 1 10 8 15 20) = ''text-yellow-600''
   \<and> history_getTimeDifference fixedZone (localDate 2024 1 10) \<lparr>hh = 8, mm = 0, ss = 0\<rparr>
        (ex_at 2024 1 10 8 15 20) = ''15 min late''
   \<and> history_getTimeDifferenceColor fixedZone (localDate 2024 1 10) \<lparr>hh = 8, mm = 0, ss = 0\<rparr>
        (ex_at 2024 1 10 8 15 20) = ''text-green-600 bg-green-50''"
  by (simp add: daily_getTimeDifference_def history_getTimeDifference_def timeDifferenceLabel_def
      history_getTimeDifferenceColor_def daily_color_eq diffMinutes_eq digitChar_def
      ex_inst_def ex_at_def newDate_def)

subsection \<open>C7: Correction signal\<close>

text \<open>
  C7 (as stated: the derived correction signal is true if and only if
  \<open>|offsetMinutes| > 1\<close> for the rounded \<open>offsetMinutes\<close>). The signal compares the
  unrounded quotient with 1. A dose scheduled at 08:00:00 with a linked History Event
  taken at 08:01:10 has \<open>offsetMinutes = 1\<close>, not above 1, and the signal is true.
\<close>

theorem C7_seventy_seconds_counterexample:
  "historyEntry (reconcile ex_now []
       [ex_hist ''h1'' ''A'' (localDate 2024 1 10) 8 0 0 (ex_at 2024 1 10 8 1 10)]
       [ex_daily] ex_presA ex_day ex_inst)
     = Some (ex_hist ''h1'' ''A'' (localDate 2024 1 10) 8 0 0 (ex_at 2024 1 10 8 1 10))
   \<and> diffMinutes ex_inst (ex_at 2024 1 10 8 1 10) = 1
   \<and> \<not> \<bar>diffMinutes ex_inst (ex_at 2024 1 10 8 1 10)\<bar> > 1
   \<and> correctionIndicator (reconcile ex_now []
       [ex_hist ''h1'' ''A'' (localDate 2024 1 10) 8 0 0 (ex_at 2024 1 10 8 1 10)]
       [ex_daily] ex_presA ex_day ex_inst)"
proof -
  have entry: "historyEntry (reconcile ex_now []
       [ex_hist ''h1'' ''A'' (localDate 2024 1 10) 8 0 0 (ex_at 2024 1 10 8 1 10)]
       [ex_daily] ex_presA ex_day ex_inst)
     = Some (ex_hist ''h1'' ''A'' (localDate 2024 1 10) 8 0 0 (ex_at 2024 1 10 8 1 10))"
    by (simp add: reconcile_historyEntry historyMatch_def ex_inst_format ex_hist_def ex_presA_def)
  have sched: "scheduledDateTime (reconcile ex_now []
       [ex_hist ''h1'' ''A'' (localDate 2024 1 10) 8 0 0 (ex_at 2024 1 10 8 1 10)]
       [ex_daily] ex_presA ex_day ex_inst) = ex_inst"
    by (simp add: reconcile_def Let_def split: option.splits)
  have off: "diffMinutes ex_inst (ex_at 2024 1 10 8 1 10) = 1"
    by (simp add: diffMinutes_eq ex_inst_def ex_at_def newDate_def)
  have sig: "correctionIndicator (reconcile ex_now []
       [ex_hist ''h1'' ''A'' (localDate 2024 1 10) 8 0 0 (ex_at 2024 1 10 8 1 10)]
       [ex_daily] ex_presA ex_day ex_inst)"
    by (simp only: correctionIndicator_eq entry sched option.case)
       (simp add: ex_hist_def ex_inst_def ex_at_def newDate_def)
  from entry off sig show ?thesis by simp
qed

text \<open>
  C7 (amended). For every reconciled dose with a linked actual-taken timestamp, the
  derived correction signal is true if and only if the actual and the scheduled time
  differ by more than 60 seconds (the unrounded \<open>|actual - scheduled| / 60 s\<close> exceeds
  1), regardless of the stored corrected flag; it is true whenever \<open>|offsetMinutes| > 1\<close>
  for the rounded \<open>offsetMinutes = round((actual - scheduled) / 60 s)\<close>. An actual time
  10 minutes after the scheduled time yields corrected = true, and so does one 45
  minutes after.
\<close>

theorem C7_signal_iff_more_than_sixty_seconds:
  "correctionIndicator dose
     = (case historyEntry dose of
          None \<Rightarrow> False
        | Some h \<Rightarrow> \<bar>actual_taken_datetime h - scheduledDateTime dose\<bar> > 60000)
   \<and> correctionIndicator (dose\<lparr>historyEntry := Some (h\<lparr>is_corrected := flag\<rparr>)\<rparr>)
       = correctionIndicator (dose\<lparr>historyEntry := Some h\<rparr>)
   \<and> correctionIndicator
        (dose\<lparr>historyEntry := Some (h\<lparr>actual_taken_datetime := scheduledDateTime dose + 10 * 60000\<rparr>)\<rparr>)
   \<and> correctionIndicator
        (dose\<lparr>historyEntry := Some (h\<lparr>actual_taken_datetime := scheduledDateTime dose + 45 * 60000\<rparr>)\<rparr>)
   \<and> (historyEntry dose = Some h
        \<and> \<bar>diffMinutes (scheduledDateTime dose) (actual_taken_datetime h)\<bar> > 1
        \<longrightarrow> correctionIndicator dose)"
proof -
  have rounded: "correctionIndicator dose"
    if "historyEntry dose = Some h"
      and "\<bar>diffMinutes (scheduledDateTime dose) (actual_taken_datetime h)\<bar> > 1"
  proof -
    from that(2) have "\<bar>actual_taken_datetime h - scheduledDateTime dose\<bar> > 60000"
      unfolding diffMinutes_eq by (rule rounded_gt1_imp)
    with that(1) show ?thesis by (simp add: correctionIndicator_eq)
  qed
  show ?thesis
    using rounded by (simp add: correctionIndicator_eq)
qed

theorem C7_forty_five_minutes_witness:
  "historyEntry (reconcile ex_now []
       [ex_hist ''h1'' ''A'' (localDate 2024 1 10) 8 0 0 (ex_at 2024 1 10 8 45 0)]
       [ex_daily] ex_presA ex_day ex_inst)
     = Some (ex_hist ''h1'' ''A'' (localDate 2024 1 10) 8 0 0 (ex_at 2024 1 10 8 45 0))
   \<and> diffMinutes ex_inst (ex_at 2024 1 10 8 45 0) = 45
   \<and> correctionIndicator (reconcile ex_now []
       [ex_hist ''h1'' ''A'' (localDate 2024 1 10) 8 0 0 (ex_at 2024 1 10 8 45 0)]
       [ex_daily] ex_presA ex_day ex_inst)"
proof -
  have entry: "historyEntry (reconcile ex_now []
       [ex_hist ''h1'' ''A'' (localDate 2024 1 10) 8 0 0 (ex_at 2024 1 10 8 45 0)]
       [ex_daily] ex_presA ex_day ex_inst)
     = Some (ex_hist ''h1'' ''A'' (localDate 2024 1 10) 8 0 0 (ex_at 2024 1 10 8 45 0))"
    by (simp add: reconcile_historyEntry historyMatch_def ex_inst_format ex_hist_def ex_presA_def)
  have sched: "scheduledDateTime (reconcile ex_now []
       [ex_hist ''h1'' ''A'' (localDate 2024 1 10) 8 0 0 (ex_at 2024 1 10 8 45 0)]
       [ex_daily] ex_presA ex_day ex_inst) = ex_inst"
    by (simp add: reconcile_def Let_def split: option.splits)
  have actual: "actual_taken_datetime (ex_hist ''h1'' ''A'' (localDate 2024 1 10) 8 0 0 (ex_at 2024 1 10 8 45 0))
      = ex_at 2024 1 10 8 45 0"
    by (simp add: ex_hist_def)
  have off: "diffMinutes ex_inst (ex_at 2024 1 10 8 45 0) = 45"
    by (simp add: diffMinutes_eq ex_inst_def ex_at_def newDate_def)
  have far: "60000 < \<bar>ex_at 2024 1 10 8 45 0 - ex_inst\<bar>"
    by (simp add: ex_inst_def ex_at_def newDate_def)
  show ?thesis
    using C7_signal_iff_more_than_sixty_seconds
            [where dose = "reconcile ex_now []
                   [ex_hist ''h1'' ''A'' (localDate 2024 1 10) 8 0 0 (ex_at 2024 1 10 8 45 0)]
                   [ex_daily] ex_presA ex_day ex_inst"
               and h = "ex_hist ''h1'' ''A'' (localDate 2024 1 10) 8 0 0 (ex_at 2024 1 10 8 45 0)"
               and flag = True]
          entry sched actual off far
    by simp
qed

subsection \<open>C8: Counts and rates\<close>

text \<open>
  C8 (as stated: the aggregator over the reconciled doses returns, with the counts, an
  adherence rate \<open>taken / total\<close> of those doses). \<^verbatim>\<open>getStats\<close> over the reconciled doses
  returns counts only. The adherence rate the program computes is
  \<^verbatim>\<open>getAdherenceRate\<close>, over all of the user's Log Events. With one dose scheduled on
  2024-01-10 and still pending, and the log and history rows of the dose taken the day
  before, the reconciled doses of 2024-01-10 have \<open>taken = 0\<close> of \<open>total = 1\<close>, and the
  adherence rate is 100 (the quotient 1 / 1 and the product 1 * 100 are exact in binary64).
\<close>

theorem C8_adherence_over_logs_counterexample:
  "map_option getStats
     (generateScheduledDoses fixedZone ex_now [ex_presA] [ex_daily]
        [ex_log ''l0'' ''A'' (ex_at 2024 1 9 8 0 0) Taken]
        [ex_hist ''h0'' ''A'' (localDate 2024 1 9) 8 0 0 (ex_at 2024 1 9 8 3 0)]
        (Some (localDate 2024 1 10)) (Some (localDate 2024 1 10)) ''all'' None Asc)
     = Some \<lparr>total = 1, taken = 0, missed = 0, pending = 1\<rparr>
   \<and> getAdherenceRate (\<lambda>x. x) [ex_log ''l0'' ''A'' (ex_at 2024 1 9 8 0 0) Taken] = 100"
proof -
  have st: "status (reconcile ex_now
        [ex_log ''l0'' ''A'' (ex_at 2024 1 9 8 0 0) Taken]
        [ex_hist ''h0'' ''A'' (localDate 2024 1 9) 8 0 0 (ex_at 2024 1 9 8 3 0)]
        [ex_daily] ex_presA ex_day ex_inst) = Pending"
    by (simp add: reconcile_status historyMatch_def logMatch_iff ex_inst_format
        ex_hist_def ex_log_def ex_presA_def ex_inst_def ex_at_def newDate_def localDate_def)
  have rate: "getAdherenceRate (\<lambda>x. x) [ex_log ''l0'' ''A'' (ex_at 2024 1 9 8 0 0) Taken] = 100"
    by (simp add: getAdherenceRate_def Math_round_def ex_log_def)
  show ?thesis
    by (simp add: ex_one_day_range getStats_def st rate)
qed

text \<open>
  C8 (amended). For every collection of reconciled doses, \<^verbatim>\<open>getStats\<close> returns total =
  number of doses and the numbers of taken, missed and pending doses (a skipped dose
  counts in the total only), and no rate. The adherence rate is computed over the user's
  Log Events: 0 when there are none, otherwise taken logs / all logs as a percentage
  rounded to a nearest integer. The on-time rate is computed over the History Events shown:
  0 when there are none, otherwise the entries taken within 15 minutes of their scheduled
  time / all entries as a percentage rounded to a nearest integer. Neither rate divides by
  zero. (\<open>fl\<close> is the rounding of binary64 arithmetic; collections have fewer than \<open>2^44\<close>
  members.)
\<close>

theorem C8_counts_and_guarded_percentages:
  fixes fl :: "real \<Rightarrow> real"
  assumes "fl 0 = 0"
    and "\<forall>x. 1 / 2 ^ 64 \<le> x \<and> x \<le> 128 \<longrightarrow> \<bar>fl x - x\<bar> \<le> x / 2 ^ 53"
  shows
    "getStats doses =
       \<lparr>total = length doses,
        taken = length (filter (\<lambda>d. status d = Taken) doses),
        missed = length (filter (\<lambda>d. status d = Missed) doses),
        pending = length (filter (\<lambda>d. status d = Pending) doses)\<rparr>
     \<and> taken (getStats doses) + missed (getStats doses) + pending (getStats doses)
         + length (filter (\<lambda>d. status d = Skipped) doses) = total (getStats doses)
     \<and> (logs = [] \<longrightarrow> getAdherenceRate fl logs = 0)
     \<and> (logs \<noteq> [] \<and> length logs < 2 ^ 44 \<longrightarrow>
          \<bar>real_of_int (getAdherenceRate fl logs)
            - 100 * real (length (filter (\<lambda>l. l_status l = Taken) logs)) / real (length logs)\<bar>
          \<le> 1 / 2)
     \<and> hs_total (history_getStats z hist) = length hist
     \<and> onTime (history_getStats z hist)
         = length (filter (\<lambda>e. \<bar>actual_taken_datetime e
                                  - newDate z (scheduled_date e) (scheduled_time e)\<bar> \<le> 900000) hist)
     \<and> (hist = [] \<longrightarrow> onTimePercent fl (history_getStats z hist) = 0)
     \<and> (hist \<noteq> [] \<and> length hist < 2 ^ 44 \<longrightarrow>
          \<bar>real_of_int (onTimePercent fl (history_getStats z hist))
            - 100 * real (onTime (history_getStats z hist)) / real (length hist)\<bar>
          \<le> 1 / 2)"
proof -
  have counts: "taken (getStats doses) + missed (getStats doses) + pending (getStats doses)
         + length (filter (\<lambda>d. status d = Skipped) doses) = total (getStats doses)"
    using getStats_counts_partition [of doses] by (simp add: getStats_def)
  have adh: "\<bar>real_of_int (getAdherenceRate fl logs)
            - 100 * real (length (filter (\<lambda>l. l_status l = Taken) logs)) / real (length logs)\<bar>
          \<le> 1 / 2"
    if "logs \<noteq> []" "length logs < 2 ^ 44"
  proof -
    have "\<bar>real_of_int (Math_round (fl (fl (real (length (filter (\<lambda>l. l_status l = Taken) logs))
                                              / real (length logs)) * 100)))
            - 100 * real (length (filter (\<lambda>l. l_status l = Taken) logs)) / real (length logs)\<bar>
          \<le> 1 / 2"
      using assms that by (intro percent_nearest) simp_all
    with that(1) show ?thesis by (simp add: getAdherenceRate_def Let_def)
  qed
  have ont: "\<bar>real_of_int (onTimePercent fl (history_getStats z hist))
            - 100 * real (onTime (history_getStats z hist)) / real (length hist)\<bar>
          \<le> 1 / 2"
    if "hist \<noteq> []" "length hist < 2 ^ 44"
  proof -
    have "\<bar>real_of_int (Math_round (fl (fl (real (onTime (history_getStats z hist))
                                              / real (length hist)) * 100)))
            - 100 * real (onTime (history_getStats z hist)) / real (length hist)\<bar>
          \<le> 1 / 2"
      using assms that onTime_le_total [of z hist] by (intro percent_nearest) simp_all
    moreover have "hs_total (history_getStats z hist) = length hist"
      by (simp add: history_getStats_def)
    ultimately show ?thesis using that(1) by (simp add: onTimePercent_def)
  qed
  have tot: "hs_total (history_getStats z hist) = length hist"
    by (simp add: history_getStats_def)
  have empty_hist: "onTimePercent fl (history_getStats z hist) = 0" if "hist = []"
    using that by (simp add: onTimePercent_def history_getStats_def)
  have empty_logs: "getAdherenceRate fl logs = 0" if "logs = []"
    using that by (simp add: getAdherenceRate_def)
  have stats: "getStats doses =
       \<lparr>total = length doses,
        taken = length (filter (\<lambda>d. status d = Taken) doses),
        missed = length (filter (\<lambda>d. status d = Missed) doses),
        pending = length (filter (\<lambda>d. status d = Pending) doses)\<rparr>"
    by (simp add: getStats_def)
  from stats counts empty_logs adh tot history_onTime_eq [of z hist] empty_hist ont
  show ?thesis by blast
qed

theorem C8_seven_of_ten_witness:
  "getAdherenceRate (\<lambda>x. x) [] = 0
   \<and> onTimePercent (\<lambda>x. x) (history_getStats fixedZone []) = 0
   \<and> getAdherenceRate (\<lambda>x. x)
        (replicate 7 (ex_log ''l1'' ''A'' ex_inst Taken) @ replicate 3 (ex_log ''l2'' ''A'' ex_inst Pending))
       = 70
   \<and> onTimePercent (\<lambda>x. x)
        (history_getStats fixedZone
           (replicate 5 (ex_hist ''h1'' ''A'' (localDate 2024 1 10) 8 0 0 (ex_at 2024 1 10 8 10 0))
            @ replicate 2 (ex_hist ''h2'' ''A'' (localDate 2024 1 10) 8 0 0 (ex_at 2024 1 10 8 45 0))))
       = 71"
proof -
  have id0: "(\<lambda>x::real. x) 0 = 0" by simp
  have iderr: "\<forall>x::real. 1 / 2 ^ 64 \<le> x \<and> x \<le> 128 \<longrightarrow> \<bar>(\<lambda>x. x) x - x\<bar> \<le> x / 2 ^ 53"
    by simp
  have rate: "getAdherenceRate (\<lambda>x. x)
        (replicate 7 (ex_log ''l1'' ''A'' ex_inst Taken) @ replicate 3 (ex_log ''l2'' ''A'' ex_inst Pending))
       = 70"
    by (simp add: getAdherenceRate_def Math_round_def ex_log_def)
  have near: "\<bar>actual_taken_datetime (ex_hist ''h1'' ''A'' (localDate 2024 1 10) 8 0 0 (ex_at 2024 1 10 8 10 0))
               - newDate fixedZone (localDate 2024 1 10) \<lparr>hh = 8, mm = 0, ss = 0\<rparr>\<bar> \<le> 900000"
    by (simp add: ex_hist_def ex_at_def newDate_def)
  have far: "\<not> \<bar>actual_taken_datetime (ex_hist ''h2'' ''A'' (localDate 2024 1 10) 8 0 0 (ex_at 2024 1 10 8 45 0))
               - newDate fixedZone (localDate 2024 1 10) \<lparr>hh = 8, mm = 0, ss = 0\<rparr>\<bar> \<le> 900000"
    by (simp add: ex_hist_def ex_at_def newDate_def)
  have sd: "scheduled_date (ex_hist i p d h m s a) = d"
       "scheduled_time (ex_hist i p d h m s a) = \<lparr>hh = h, mm = m, ss = s\<rparr>" for i p d h m s a
    by (simp_all add: ex_hist_def)
  have ont: "onTime (history_getStats fixedZone
           (replicate 5 (ex_hist ''h1'' ''A'' (localDate 2024 1 10) 8 0 0 (ex_at 2024 1 10 8 10 0))
            @ replicate 2 (ex_hist ''h2'' ''A'' (localDate 2024 1 10) 8 0 0 (ex_at 2024 1 10 8 45 0)))) = 5"
    using near far by (simp add: history_onTime_eq sd)
  have tot: "hs_total (history_getStats fixedZone
           (replicate 5 (ex_hist ''h1'' ''A'' (localDate 2024 1 10) 8 0 0 (ex_at 2024 1 10 8 10 0))
            @ replicate 2 (ex_hist ''h2'' ''A'' (localDate 2024 1 10) 8 0 0 (ex_at 2024 1 10 8 45 0)))) = 7"
    by (simp add: history_getStats_def)
  have pct: "onTimePercent (\<lambda>x. x)
        (history_getStats fixedZone
           (replicate 5 (ex_hist ''h1'' ''A'' (localDate 2024 1 10) 8 0 0 (ex_at 2024 1 10 8 10 0))
            @ replicate 2 (ex_hist ''h2'' ''A'' (localDate 2024 1 10) 8 0 0 (ex_at 2024 1 10 8 45 0))))
       = 71"
    by (simp add: onTimePercent_def ont tot Math_round_def)
  show ?thesis
    using C8_counts_and_guarded_percentages [OF id0 iderr,
            where doses = "[]" and logs = "[]" and hist = "[]" and z = fixedZone]
          C8_counts_and_guarded_percentages [OF id0 iderr,
            where doses = "[]" and z = fixedZone
              and logs = "replicate 7 (ex_log ''l1'' ''A'' ex_inst Taken)
                          @ replicate 3 (ex_log ''l2'' ''A'' ex_inst Pending)"
              and hist = "replicate 5 (ex_hist ''h1'' ''A'' (localDate 2024 1 10) 8 0 0 (ex_at 2024 1 10 8 10 0))
                          @ replicate 2 (ex_hist ''h2'' ''A'' (localDate 2024 1 10) 8 0 0 (ex_at 2024 1 10 8 45 0))"]
          rate pct
    by simp
qed

subsection \<open>C9: What the two matches look at\<close>

text \<open>
  C9. In the reconciliation, a linked History Event always belongs to the instant's
  prescription, since equality of \<^verbatim>\<open>prescription_id\<close> is part of the history match. With
  no history match, the Log Event that gives the status is the first one of the supplied
  collection whose scheduled timestamp is less than 60000 ms from the instant; the log's
  \<^verbatim>\<open>prescription_id\<close> is not looked at (nor is it in \<^verbatim>\<open>getTodaysDoses\<close>), and there is
  a snapshot in which a log of another prescription decides the dose's status.
\<close>

theorem C9_history_by_prescription_log_by_time_only:
  "(\<forall>h. historyEntry (reconcile now logs history schedules prescription date scheduledTime) = Some h
        \<longrightarrow> h_prescription_id h = p_id prescription)
   \<and> (historyEntry (reconcile now logs history schedules prescription date scheduledTime) = None
        \<longrightarrow> sd_log (reconcile now logs history schedules prescription date scheduledTime)
              = find (\<lambda>l. \<bar>l_scheduled_time l - scheduledTime\<bar> < 60000) logs
            \<and> status (reconcile now logs history schedules prescription date scheduledTime)
              = (case find (\<lambda>l. \<bar>l_scheduled_time l - scheduledTime\<bar> < 60000) logs of
                   Some l \<Rightarrow> l_status l
                 | None \<Rightarrow> Pending))
   \<and> map td_log (getTodaysDoses z doseSchedules logs today)
       = map (\<lambda>time. find (\<lambda>l. \<bar>l_scheduled_time l - time\<bar> < 60000) logs)
           (generateScheduledTimes z doseSchedules today)
   \<and> (\<exists>z' now' logs' history' schedules' prescription' date' t' l'.
         t' \<in> set (generateScheduledTimes z' schedules' date')
         \<and> sd_log (reconcile now' logs' history' schedules' prescription' date' t') = Some l'
         \<and> l_prescription_id l' \<noteq> p_id prescription'
         \<and> status (reconcile now' logs' history' schedules' prescription' date' t') = Missed)"
proof -
  let ?d = "reconcile now logs history schedules prescription date scheduledTime"
  have hist: "h_prescription_id h = p_id prescription" if "historyEntry ?d = Some h" for h
  proof -
    from that have "find (historyMatch prescription date scheduledTime) history = Some h"
      by (simp add: reconcile_historyEntry)
    then have "historyMatch prescription date scheduledTime h"
      by (auto simp add: find_Some_iff)
    then show ?thesis by (simp add: historyMatch_def)
  qed
  have lg: "sd_log ?d = find (\<lambda>l. \<bar>l_scheduled_time l - scheduledTime\<bar> < 60000) logs
            \<and> status ?d = (case find (\<lambda>l. \<bar>l_scheduled_time l - scheduledTime\<bar> < 60000) logs of
                   Some l \<Rightarrow> l_status l
                 | None \<Rightarrow> Pending)"
    if "historyEntry ?d = None"
  proof -
    from that have "find (historyMatch prescription date scheduledTime) history = None"
      by (simp add: reconcile_historyEntry)
    then show ?thesis by (simp add: reconcile_log reconcile_status logMatch_fun)
  qed
  have today: "map td_log (getTodaysDoses z doseSchedules logs today)
       = map (\<lambda>time. find (\<lambda>l. \<bar>l_scheduled_time l - time\<bar> < 60000) logs)
           (generateScheduledTimes z doseSchedules today)"
    by (simp add: getTodaysDoses_def Let_def logMatch_fun)
  have ex: "\<exists>z' now' logs' history' schedules' prescription' date' t' l'.
         t' \<in> set (generateScheduledTimes z' schedules' date')
         \<and> sd_log (reconcile now' logs' history' schedules' prescription' date' t') = Some l'
         \<and> l_prescription_id l' \<noteq> p_id prescription'
         \<and> status (reconcile now' logs' history' schedules' prescription' date' t') = Missed"
    using foreign_log_example by blast
  from hist lg today ex show ?thesis by blast
qed

theorem C9_foreign_log_witness:
  "h_prescription_id (ex_hist ''h1'' ''A'' (localDate 2024 1 10) 8 0 0 (ex_at 2024 1 10 8 2 0))
     = p_id ex_presA
   \<and> historyEntry (reconcile ex_now [] [ex_hist ''h1'' ''A'' (localDate 2024 1 10) 8 0 0 (ex_at 2024 1 10 8 2 0)]
        [ex_daily] ex_presA ex_day ex_inst)
     = Some (ex_hist ''h1'' ''A'' (localDate 2024 1 10) 8 0 0 (ex_at 2024 1 10 8 2 0))
   \<and> historyEntry (reconcile ex_now [ex_log ''l7'' ''B'' (ex_at 2024 1 10 8 0 0) Missed] []
        [ex_daily] ex_presA ex_day ex_inst) = None
   \<and> status (reconcile ex_now [ex_log ''l7'' ''B'' (ex_at 2024 1 10 8 0 0) Missed] []
        [ex_daily] ex_presA ex_day ex_inst) = Missed"
proof -
  have e1: "historyEntry (reconcile ex_now [] [ex_hist ''h1'' ''A'' (localDate 2024 1 10) 8 0 0 (ex_at 2024 1 10 8 2 0)]
        [ex_daily] ex_presA ex_day ex_inst)
     = Some (ex_hist ''h1'' ''A'' (localDate 2024 1 10) 8 0 0 (ex_at 2024 1 10 8 2 0))"
    by (simp add: reconcile_historyEntry historyMatch_def ex_inst_format ex_hist_def ex_presA_def)
  have e2: "historyEntry (reconcile ex_now [ex_log ''l7'' ''B'' (ex_at 2024 1 10 8 0 0) Missed] []
        [ex_daily] ex_presA ex_day ex_inst) = None"
    by (simp add: reconcile_historyEntry)
  have near: "\<bar>l_scheduled_time (ex_log ''l7'' ''B'' (ex_at 2024 1 10 8 0 0) Missed) - ex_inst\<bar> < 60000"
    by (simp add: ex_log_def ex_inst_def)
  show ?thesis
    using C9_history_by_prescription_log_by_time_only
            [of ex_now "[]" "[ex_hist ''h1'' ''A'' (localDate 2024 1 10) 8 0 0 (ex_at 2024 1 10 8 2 0)]"
                "[ex_daily]" ex_presA ex_day ex_inst fixedZone "[]" ex_day]
          C9_history_by_prescription_log_by_time_only
            [of ex_now "[ex_log ''l7'' ''B'' (ex_at 2024 1 10 8 0 0) Missed]" "[]"
                "[ex_daily]" ex_presA ex_day ex_inst fixedZone "[]" ex_day]
          e1 e2 near
    by (simp add: ex_log_def)
qed

subsection \<open>C10: Saving an edit\<close>

text \<open>
  C10. Every save of an edit to a History Event sets \<^verbatim>\<open>is_corrected\<close> to true,
  unconditionally: after a save, every row with the edited id has the flag set, also when
  the saved actual-taken timestamp is the one the row already had and only the notes
  differ; rows with other ids are unchanged.
\<close>

theorem C10_save_always_sets_is_corrected:
  assumes "handleSaveEdit st table = Some (st', table')"
  shows "\<exists>entryId localDateTime.
           editingEntry st = Some entryId \<and> editDateTime st = Some localDateTime
           \<and> length table' = length table
           \<and> (\<forall>row \<in> set table'. h_id row = entryId \<longrightarrow> is_corrected row)
           \<and> (\<forall>row \<in> set table.
                 h_id row = entryId \<and> actual_taken_datetime row = localDateTime
                 \<longrightarrow> row\<lparr>h_notes := editNotes st, is_corrected := True\<rparr> \<in> set table')
           \<and> (\<forall>row \<in> set table. h_id row \<noteq> entryId \<longrightarrow> row \<in> set table')"
proof -
  from assms obtain entryId localDateTime
    where e: "editingEntry st = Some entryId" and d: "editDateTime st = Some localDateTime"
      and t: "table' = updateHistory entryId localDateTime (editNotes st) table"
    by (cases "editingEntry st"; cases "editDateTime st")
       (simp_all add: handleSaveEdit_def split: if_splits)
  define f :: "MedicationHistory \<Rightarrow> MedicationHistory" where "f = (\<lambda>row. if h_id row = entryId
         then row\<lparr>actual_taken_datetime := localDateTime, h_notes := editNotes st, is_corrected := True\<rparr>
         else row)"
  have t': "table' = map f table"
    by (simp only: t updateHistory_def f_def)
  have len: "length table' = length table"
    by (simp add: t')
  have flag: "\<forall>row \<in> set table'. h_id row = entryId \<longrightarrow> is_corrected row"
  proof (intro ballI impI)
    fix row assume "row \<in> set table'" and id: "h_id row = entryId"
    then obtain old where "old \<in> set table" and row: "row = f old"
      unfolding t' by auto
    show "is_corrected row"
    proof (cases "h_id old = entryId")
      case True
      then show ?thesis by (simp add: row f_def)
    next
      case False
      then have "row = old" by (simp add: row f_def)
      with id False show ?thesis by simp
    qed
  qed
  have same: "\<forall>row \<in> set table.
                 h_id row = entryId \<and> actual_taken_datetime row = localDateTime
                 \<longrightarrow> row\<lparr>h_notes := editNotes st, is_corrected := True\<rparr> \<in> set table'"
  proof (intro ballI impI)
    fix row assume mem: "row \<in> set table"
      and h: "h_id row = entryId \<and> actual_taken_datetime row = localDateTime"
    from mem have "f row \<in> set table'" by (simp add: t')
    moreover from h have "f row = row\<lparr>h_notes := editNotes st, is_corrected := True\<rparr>"
      by (simp add: f_def)
    ultimately show "row\<lparr>h_notes := editNotes st, is_corrected := True\<rparr> \<in> set table'"
      by simp
  qed
  have other: "\<forall>row \<in> set table. h_id row \<noteq> entryId \<longrightarrow> row \<in> set table'"
  proof (intro ballI impI)
    fix row assume mem: "row \<in> set table" and h: "h_id row \<noteq> entryId"
    from mem have "f row \<in> set table'" by (simp add: t')
    moreover from h have "f row = row" by (simp add: f_def)
    ultimately show "row \<in> set table'" by simp
  qed
  show ?thesis
  proof (rule exI [of _ entryId], rule exI [of _ localDateTime], intro conjI)
    show "editingEntry st = Some entryId" by (fact e)
    show "editDateTime st = Some localDateTime" by (fact d)
    show "length table' = length table" by (fact len)
    show "\<forall>row \<in> set table'. h_id row = entryId \<longrightarrow> is_corrected row" by (fact flag)
    show "\<forall>row \<in> set table.
                 h_id row = entryId \<and> actual_taken_datetime row = localDateTime
                 \<longrightarrow> row\<lparr>h_notes := editNotes st, is_corrected := True\<rparr> \<in> set table'"
      by (fact same)
    show "\<forall>row \<in> set table. h_id row \<noteq> entryId \<longrightarrow> row \<in> set table'" by (fact other)
  qed
qed

theorem C10_notes_only_edit_witness:
  "handleSaveEdit
     \<lparr>editingEntry = Some ''h1'', editDateTime = Some (ex_at 2024 1 10 8 2 0), editNotes = ''with food''\<rparr>
     [ex_hist ''h1'' ''A'' (localDate 2024 1 10) 8 0 0 (ex_at 2024 1 10 8 2 0),
      ex_hist ''h2'' ''A'' (localDate 2024 1 9) 8 0 0 (ex_at 2024 1 9 8 0 0)]
   = Some (\<lparr>editingEntry = None, editDateTime = None, editNotes = ''''\<rparr>,
           [(ex_hist ''h1'' ''A'' (localDate 2024 1 10) 8 0 0 (ex_at 2024 1 10 8 2 0))
               \<lparr>h_notes := ''with food'', is_corrected := True\<rparr>,
            ex_hist ''h2'' ''A'' (localDate 2024 1 9) 8 0 0 (ex_at 2024 1 9 8 0 0)])
   \<and> \<not> is_corrected (ex_hist ''h1'' ''A'' (localDate 2024 1 10) 8 0 0 (ex_at 2024 1 10 8 2 0))"
proof -
  have run: "handleSaveEdit
     \<lparr>editingEntry = Some ''h1'', editDateTime = Some (ex_at 2024 1 10 8 2 0), editNotes = ''with food''\<rparr>
     [ex_hist ''h1'' ''A'' (localDate 2024 1 10) 8 0 0 (ex_at 2024 1 10 8 2 0),
      ex_hist ''h2'' ''A'' (localDate 2024 1 9) 8 0 0 (ex_at 2024 1 9 8 0 0)]
   = Some (\<lparr>editingEntry = None, editDateTime = None, editNotes = ''''\<rparr>,
           [(ex_hist ''h1'' ''A'' (localDate 2024 1 10) 8 0 0 (ex_at 2024 1 10 8 2 0))
               \<lparr>h_notes := ''with food'', is_corrected := True\<rparr>,
            ex_hist ''h2'' ''A'' (localDate 2024 1 9) 8 0 0 (ex_at 2024 1 9 8 0 0)])"
    by (simp add: handleSaveEdit_def updateHistory_def ex_hist_def)
  have before: "\<not> is_corrected (ex_hist ''h1'' ''A'' (localDate 2024 1 10) 8 0 0 (ex_at 2024 1 10 8 2 0))"
    by (simp add: ex_hist_def)
  show ?thesis
    using C10_save_always_sets_is_corrected [OF run] run before
    by simp
qed

end
